theory Spec2Isabelle
  imports Complex_Main "HOL-Library.Sublist"
begin

section \<open>Conventions of the embedding\<close>

text \<open>
  The development embeds \<^verbatim>\<open>src/api.py\<close>, the FastAPI backend of the Reddit sentiment
  service, function by function.

  \<^item> A Python \<^verbatim>\<open>float\<close> is modelled by the rational number it denotes (\<^typ>\<open>rat\<close>); the
    rounding of binary floating point is not modelled. The two library functions whose
    result depends on that rounding, \<^verbatim>\<open>float(str)\<close> and \<^verbatim>\<open>round(x, 1)\<close>, are
    parameters of the model (fields of the environment record below).
  \<^item> A Python \<^verbatim>\<open>str\<close> is a \<^typ>\<open>string\<close>; one \<^typ>\<open>char\<close> stands for one character.
    \<^verbatim>\<open>upper()\<close>, \<^verbatim>\<open>lower()\<close> and the regular expression class \<^verbatim>\<open>\d\<close> are
    modelled on ASCII.
  \<^item> A raised exception is a value: a function that can raise returns an
    \<open>outcome\<close>, and the caller's \<^verbatim>\<open>try/except\<close> is a case distinction on it.
  \<^item> Everything outside the process (the Reddit API, the llama.cpp server, the clock,
    a failing SQLite statement, the FTS5 matcher) is an oracle, a field of the
    environment record. The oracles of the background task are indexed by the number of
    external interactions the task has made so far, so that two calls with the same
    arguments may be answered differently.
  \<^item> The background task and the request handlers are modelled one at a time; the
    interleaving of concurrent tasks is not modelled.
\<close>

section \<open>Exceptions\<close>

datatype exn =
    KeyError
  | SqliteError
  | ZeroDivisionError
  | ValueError
  | NameError string

datatype 'a outcome = Returned 'a | Raised exn

section \<open>Strings\<close>

text \<open>
  \<^verbatim>\<open>needle in haystack\<close> on two strings: the needle occurs as a contiguous
  substring.
\<close>

fun contains :: "string \<Rightarrow> string \<Rightarrow> bool" where
  "contains needle [] = (needle = [])"
| "contains needle (c # cs) = (prefix needle (c # cs) \<or> contains needle cs)"

definition ascii_lowercase :: string where
  "ascii_lowercase = ''abcdefghijklmnopqrstuvwxyz''"

definition ascii_uppercase :: string where
  "ascii_uppercase = ''ABCDEFGHIJKLMNOPQRSTUVWXYZ''"

text \<open>\<^verbatim>\<open>str.upper()\<close> and \<^verbatim>\<open>str.lower()\<close>, on the ASCII letters.\<close>

definition upper_char :: "char \<Rightarrow> char" where
  "upper_char c = (case map_of (zip ascii_lowercase ascii_uppercase) c of Some u \<Rightarrow> u | None \<Rightarrow> c)"

definition lower_char :: "char \<Rightarrow> char" where
  "lower_char c = (case map_of (zip ascii_uppercase ascii_lowercase) c of Some l \<Rightarrow> l | None \<Rightarrow> c)"

definition upper :: "string \<Rightarrow> string" where
  "upper s = map upper_char s"

definition lower :: "string \<Rightarrow> string" where
  "lower s = map lower_char s"

text \<open>
  \<^verbatim>\<open>str.strip()\<close>: the leading and trailing characters for which
  \<^verbatim>\<open>str.isspace()\<close> holds are removed. Among the characters below 256 these are
  0x09 to 0x0D, 0x1C to 0x1F, the space, 0x85 and 0xA0.
\<close>

definition is_space :: "char \<Rightarrow> bool" where
  "is_space c =
     (c \<in> set [CHR 0x09, CHR 0x0A, CHR 0x0B, CHR 0x0C, CHR 0x0D,
                CHR 0x1C, CHR 0x1D, CHR 0x1E, CHR 0x1F, CHR 0x20, CHR 0x85, CHR 0xA0])"

definition strip :: "string \<Rightarrow> string" where
  "strip s = rev (dropWhile is_space (rev (dropWhile is_space s)))"

text \<open>\<^verbatim>\<open>s.split(",")\<close>: the fields between the separators; never the empty list.\<close>

fun split_on :: "char \<Rightarrow> string \<Rightarrow> string list" where
  "split_on sep [] = [[]]"
| "split_on sep (c # cs) =
     (if c = sep then [] # split_on sep cs
      else (case split_on sep cs of
              [] \<Rightarrow> [[c]]
            | field # fields \<Rightarrow> (c # field) # fields))"

text \<open>\<^verbatim>\<open>str(n)\<close> for a length or a count: the decimal digits of a natural number.\<close>

definition digit_char :: "nat \<Rightarrow> char" where
  "digit_char d = ''0123456789'' ! d"

fun str_nat :: "nat \<Rightarrow> string" where
  "str_nat n = (if n < 10 then [digit_char n] else str_nat (n div 10) @ [digit_char (n mod 10)])"

declare str_nat.simps [simp del]

text \<open>
  \<^verbatim>\<open>xs[:limit]\<close> for an integer \<^verbatim>\<open>limit\<close>: a negative limit drops that many
  elements from the end.
\<close>

definition slice_to :: "int \<Rightarrow> 'a list \<Rightarrow> 'a list" where
  "slice_to limit xs =
     (if limit \<ge> 0 then take (nat limit) xs else take (length xs - nat (- limit)) xs)"

section \<open>Regular expressions\<close>

text \<open>
  The one pattern of the program, \<^verbatim>\<open>[-+]?\d*\.?\d+\<close>, is a sequence of character
  classes, each under a greedy quantifier. \<open>re_match\<close> is the backtracking matcher of
  Python's \<^verbatim>\<open>re\<close> for such sequences, anchored at the start of its input: a
  quantifier first takes as much as it can and gives characters back when the rest of the
  pattern fails. It returns the matched text. \<open>re_search\<close> is \<^verbatim>\<open>re.search\<close>: the
  match at the leftmost position that has one.
\<close>

datatype quantifier = Opt | Star | Plus

type_synonym regex = "((char \<Rightarrow> bool) \<times> quantifier) list"

fun re_match :: "regex \<Rightarrow> string \<Rightarrow> string option" where
  "re_match [] s = Some []"
| "re_match ((cls, Opt) # r) [] = re_match r []"
| "re_match ((cls, Opt) # r) (x # xs) =
     (if cls x then
        (case re_match r xs of
           Some m \<Rightarrow> Some (x # m)
         | None \<Rightarrow> re_match r (x # xs))
      else re_match r (x # xs))"
| "re_match ((cls, Star) # r) [] = re_match r []"
| "re_match ((cls, Star) # r) (x # xs) =
     (if cls x then
        (case re_match ((cls, Star) # r) xs of
           Some m \<Rightarrow> Some (x # m)
         | None \<Rightarrow> re_match r (x # xs))
      else re_match r (x # xs))"
| "re_match ((cls, Plus) # r) [] = None"
| "re_match ((cls, Plus) # r) (x # xs) =
     (if cls x then
        (case re_match ((cls, Star) # r) xs of
           Some m \<Rightarrow> Some (x # m)
         | None \<Rightarrow> None)
      else None)"

fun re_search :: "regex \<Rightarrow> string \<Rightarrow> string option" where
  "re_search r [] = re_match r []"
| "re_search r (x # xs) =
     (case re_match r (x # xs) of
        Some m \<Rightarrow> Some m
      | None \<Rightarrow> re_search r xs)"

definition is_sign :: "char \<Rightarrow> bool" where
  "is_sign c = (c = CHR ''-'' \<or> c = CHR ''+'')"

definition is_digit :: "char \<Rightarrow> bool" where
  "is_digit c = (c \<in> set ''0123456789'')"

definition is_dot :: "char \<Rightarrow> bool" where
  "is_dot c = (c = CHR ''.'')"

definition number_re :: regex where
  "number_re = [(is_sign, Opt), (is_digit, Star), (is_dot, Opt), (is_digit, Plus)]"

section \<open>Data model\<close>

text \<open>
  A timestamp (\<^verbatim>\<open>datetime\<close>) is a number of microseconds since an epoch, a
  \<^verbatim>\<open>timedelta(days=d)\<close> is \<open>d\<close> times the length of a day, and the calendar date
  of a timestamp (SQL \<^verbatim>\<open>DATE(created_utc)\<close>, Python
  \<^verbatim>\<open>strftime("%Y-%m-%d")\<close>) is the number of its day; the formatted date string is a
  one-to-one rendering of that number.
\<close>

type_synonym datetime = int

definition day_us :: int where
  "day_us = 86400000000"

definition timedelta_days :: "int \<Rightarrow> int" where
  "timedelta_days d = d * day_us"

definition date_of :: "datetime \<Rightarrow> int" where
  "date_of t = t div day_us"

text \<open>
  The three strings \<^verbatim>\<open>"positive"\<close>, \<^verbatim>\<open>"negative"\<close>, \<^verbatim>\<open>"neutral"\<close> that
  \<^verbatim>\<open>analyze_sentiment\<close> returns and \<^verbatim>\<open>store_post\<close> writes. The column
  \<^verbatim>\<open>posts.sentiment\<close> has no other writer, so a stored sentiment is one of them or
  \<^verbatim>\<open>None\<close>/\<^verbatim>\<open>NULL\<close>.
\<close>

datatype sentiment = Positive | Negative | Neutral

fun sentiment_str :: "sentiment \<Rightarrow> string" where
  "sentiment_str Positive = ''positive''"
| "sentiment_str Negative = ''negative''"
| "sentiment_str Neutral = ''neutral''"

text \<open>
  The dictionary that \<^verbatim>\<open>fetch_reddit_posts\<close> builds for a post, and the row of table
  \<^verbatim>\<open>posts\<close> (the pydantic model \<^verbatim>\<open>Post\<close>): the same fields and the three that
  \<^verbatim>\<open>store_post\<close> adds. The column \<^verbatim>\<open>fetched_at\<close> is read by no modelled function
  and is left out.
\<close>

record post =
  post_id :: string
  title :: string
  selftext :: string
  author :: string
  score :: int
  ups :: int
  downs :: int
  num_comments :: int
  created_utc :: datetime
  permalink :: string
  url :: string
  subreddit :: string

record row = post +
  sentiment :: "sentiment option"
  sentiment_score :: "rat option"
  analyzed_at :: datetime

text \<open>
  How a timestamp is stored and read back. The module registers
  \<^verbatim>\<open>adapt_datetime\<close> (lines 26 and 34) for every \<^verbatim>\<open>datetime\<close> it hands to SQLite:
  the stored text is \<^verbatim>\<open>dt.isoformat()\<close>, the date and the time of day joined by the
  letter T. A row of the model holds, in \<open>created_utc\<close> and \<open>analyzed_at\<close>, the
  datetime that was handed over; the text in the table is its \<open>adapt_datetime\<close>.
\<close>

record timestamp_text =
  date_part :: int
  separator :: char
  time_part :: int

definition adapt_datetime :: "datetime \<Rightarrow> timestamp_text" where
  "adapt_datetime dt = \<lparr>date_part = dt div day_us, separator = CHR ''T'', time_part = dt mod day_us\<rparr>"

text \<open>
  The columns \<^verbatim>\<open>created_utc\<close> and \<^verbatim>\<open>analyzed_at\<close> are declared
  \<^verbatim>\<open>TIMESTAMP\<close> (lines 183 and 189) and every connection is opened with
  \<^verbatim>\<open>PARSE_DECLTYPES\<close>. The converters the module registers are for the type names
  \<^verbatim>\<open>DATETIME\<close> and \<^verbatim>\<open>DATE\<close> (lines 35 to 39), so a selected timestamp column goes
  through the default converter of \<^verbatim>\<open>sqlite3\<close> for \<^verbatim>\<open>timestamp\<close>, which starts
  with \<^verbatim>\<open>datepart, timepart = val.split(b" ")\<close>: it needs a space between date and
  time and raises \<^verbatim>\<open>ValueError\<close> on any other text.
\<close>

definition convert_timestamp :: "timestamp_text \<Rightarrow> datetime outcome" where
  "convert_timestamp t =
     (if separator t = CHR '' '' then Returned (date_part t * day_us + time_part t)
      else Raised ValueError)"

text \<open>
  One result row of the \<^verbatim>\<open>SELECT id, ..., created_utc, ..., analyzed_at FROM posts\<close>
  of the search endpoints (lines 547, 649 and 807), and \<^verbatim>\<open>cursor.fetchall()\<close> on
  the selected rows: the converter runs on both timestamp columns of each row, and the
  first exception leaves the call.
\<close>

definition read_row :: "row \<Rightarrow> row outcome" where
  "read_row r =
     (case convert_timestamp (adapt_datetime (created_utc r)) of
        Raised ex \<Rightarrow> Raised ex
      | Returned created \<Rightarrow>
          (case convert_timestamp (adapt_datetime (analyzed_at r)) of
             Raised ex \<Rightarrow> Raised ex
           | Returned analyzed \<Rightarrow> Returned (r\<lparr>created_utc := created, analyzed_at := analyzed\<rparr>)))"

fun fetchall :: "row list \<Rightarrow> row list outcome" where
  "fetchall [] = Returned []"
| "fetchall (r # rest) =
     (case read_row r of
        Raised ex \<Rightarrow> Raised ex
      | Returned p \<Rightarrow>
          (case fetchall rest of
             Raised ex \<Rightarrow> Raised ex
           | Returned ps \<Rightarrow> Returned (p # ps)))"

section \<open>The environment\<close>

text \<open>
  What the llama.cpp server can answer to \<^verbatim>\<open>POST /completion\<close>: the request raises
  (connection refused, timeout), or a response arrives with a status and a body. Of the
  body the code reads \<^verbatim>\<open>(await response.json()).get("content", "")\<close>: the body is
  not JSON or not an object (both raise), or it is an object whose field
  \<^verbatim>\<open>content\<close> is absent, a string, or another JSON value.
\<close>

datatype content_field = Absent | Text string | NotText

datatype body = NotJson | NotObject | Object content_field

datatype http_reply = NoResponse | Response nat body

text \<open>
  What the Reddit API can answer: the request or the JSON decoding fails (caught inside
  \<^verbatim>\<open>fetch_reddit_posts\<close>), the JSON lacks a key that the function subscripts (a
  \<^verbatim>\<open>KeyError\<close> outside the \<^verbatim>\<open>try\<close>), or a listing of posts.
\<close>

datatype reddit_reply = Unreachable | Malformed | Listing "post list"

text \<open>
  The streamed answer of the server, line by line as \<^verbatim>\<open>response.content\<close> yields
  them. A line does not start with \<^verbatim>\<open>data: \<close>; or its payload is not JSON
  (\<^verbatim>\<open>JSONDecodeError\<close>, passed over); or it is a JSON value for which
  \<^verbatim>\<open>"content" in data\<close> is false; or an object with a string \<^verbatim>\<open>content\<close>; or
  reading or handling it raises another exception (the connection breaks or times out,
  the bytes are not UTF-8, the payload is not a container, the content is not a string).
\<close>

datatype sse_line = OtherLine | BadJson | NoContent | Chunk string | Broken

datatype stream_reply = NoStream | Stream nat "sse_line list"

text \<open>
  The environment. \<open>reddit k sub limit\<close> is the answer of the Reddit API when the
  \<open>k\<close>-th interaction of the process fetches \<open>limit\<close> posts of a source,
  \<open>llama k prompt\<close> the answer of the server to a completion request made as the
  \<open>k\<close>-th interaction, and \<open>llama_stream prompt\<close> its answer to the streamed request
  of one streaming analysis. \<open>sqlite_raises k\<close> tells whether the SQLite statement issued
  as the \<open>k\<close>-th interaction raises, and \<open>clock k\<close> is \<^verbatim>\<open>datetime.now()\<close> at that
  moment. \<open>fts5 q\<close> is the FTS5 \<^verbatim>\<open>MATCH\<close> of a query string: the set of rows it
  matches, or none when SQLite rejects the query string. \<open>pyfloat\<close> is \<^verbatim>\<open>float\<close> on
  a string (none for \<^verbatim>\<open>ValueError\<close>; an overflow to infinity is any value above 1),
  and \<open>round1\<close> is \<^verbatim>\<open>round(x, 1)\<close>.
\<close>

record env =
  reddit :: "nat \<Rightarrow> string \<Rightarrow> nat \<Rightarrow> reddit_reply"
  llama :: "nat \<Rightarrow> string \<Rightarrow> http_reply"
  llama_stream :: "string \<Rightarrow> stream_reply"
  sqlite_raises :: "nat \<Rightarrow> bool"
  clock :: "nat \<Rightarrow> datetime"
  fts5 :: "string \<Rightarrow> (row \<Rightarrow> bool) option"
  pyfloat :: "string \<Rightarrow> rat option"
  round1 :: "rat \<Rightarrow> rat"

section \<open>Sentiment classifier client\<close>

definition newline :: string where
  "newline = [CHR 0x0A]"

text \<open>The prompt of \<^verbatim>\<open>analyze_sentiment\<close> (lines 291 to 299), with \<^verbatim>\<open>text[:400]\<close>.\<close>

definition sentiment_prompt :: "string \<Rightarrow> string" where
  "sentiment_prompt text =
     ''Analyze the sentiment of this Reddit post.'' @ newline @
     ''Classify as: POSITIVE, NEGATIVE, or NEUTRAL.'' @ newline @
     ''Score: -1.0 (negative) to +1.0 (positive).'' @ newline @ newline @
     ''Text: '' @ take 400 text @ newline @ newline @
     ''Respond exactly:'' @ newline @
     ''Sentiment: [POSITIVE/NEGATIVE/NEUTRAL]'' @ newline @
     ''Score: [number]''"

text \<open>
  Lines 322 to 342: the parse of the completion text. The second component is
  \<^verbatim>\<open>score\<close>: the default of the category, replaced by the first number of the text when
  \<^verbatim>\<open>float\<close> accepts it and it lies between -1 and 1.
\<close>

definition parse_completion :: "env \<Rightarrow> string \<Rightarrow> sentiment \<times> rat" where
  "parse_completion e completion =
     (let (sentiment, score) =
            (if contains ''POSITIVE'' (upper completion) then (Positive, 7 / 10)
             else if contains ''NEGATIVE'' (upper completion) then (Negative, - (7 / 10))
             else (Neutral, 0))
      in case re_search number_re completion of
           None \<Rightarrow> (sentiment, score)
         | Some m \<Rightarrow>
             (case pyfloat e m of
                None \<Rightarrow> (sentiment, score)
              | Some s \<Rightarrow> if - 1 \<le> s \<and> s \<le> 1 then (sentiment, s) else (sentiment, score)))"

text \<open>
  \<^verbatim>\<open>analyze_sentiment(text)\<close>, lines 289 to 346, as the \<open>k\<close>-th external interaction
  of the process. Every exception is caught by the function's \<^verbatim>\<open>except Exception\<close>
  and gives the pair of \<^verbatim>\<open>None\<close>s.
\<close>

definition analyze_sentiment :: "env \<Rightarrow> nat \<Rightarrow> string \<Rightarrow> sentiment option \<times> rat option" where
  "analyze_sentiment e k text =
     (case llama e k (sentiment_prompt text) of
        NoResponse \<Rightarrow> (None, None)
      | Response status b \<Rightarrow>
          if status \<noteq> 200 then (None, None)
          else (case b of
                  NotJson \<Rightarrow> (None, None)
                | NotObject \<Rightarrow> (None, None)
                | Object NotText \<Rightarrow> (None, None)
                | Object Absent \<Rightarrow>
                    (case parse_completion e [] of (s, x) \<Rightarrow> (Some s, Some x))
                | Object (Text completion) \<Rightarrow>
                    (case parse_completion e completion of (s, x) \<Rightarrow> (Some s, Some x))))"

text \<open>
  The specification's reading of the classifier's policy, for comparison with the code.
  A signed decimal number at the start of a text: an optional sign, the longest run of
  digits, and, when a point and at least one digit follow, the point and the longest run
  of digits after it; there must be a digit. The first number of a text is the one at the
  leftmost position that has one.
\<close>

definition unsigned_prefix :: "string \<Rightarrow> string option" where
  "unsigned_prefix u =
     (let whole = takeWhile is_digit u;
          rest = dropWhile is_digit u;
          frac = (if take 1 rest = ''.'' then takeWhile is_digit (drop 1 rest) else [])
      in if frac \<noteq> [] then Some (whole @ ''.'' @ frac)
         else if whole \<noteq> [] then Some whole
         else None)"

definition number_prefix :: "string \<Rightarrow> string option" where
  "number_prefix s =
     (let sg = (if take 1 s = ''-'' \<or> take 1 s = ''+'' then take 1 s else []);
          unsigned = drop (length sg) s;
          whole = takeWhile is_digit unsigned;
          rest = dropWhile is_digit unsigned;
          frac = (if take 1 rest = ''.'' then takeWhile is_digit (drop 1 rest) else [])
      in if frac \<noteq> [] then Some (sg @ whole @ ''.'' @ frac)
         else if whole \<noteq> [] then Some (sg @ whole)
         else None)"

fun spec_first_number :: "string \<Rightarrow> string option" where
  "spec_first_number [] = None"
| "spec_first_number (c # cs) =
     (case number_prefix (c # cs) of
        Some m \<Rightarrow> Some m
      | None \<Rightarrow> spec_first_number cs)"

definition spec_category :: "string \<Rightarrow> sentiment" where
  "spec_category c =
     (if sublist ''POSITIVE'' (upper c) then Positive
      else if sublist ''NEGATIVE'' (upper c) then Negative
      else Neutral)"

fun spec_default_score :: "sentiment \<Rightarrow> rat" where
  "spec_default_score Positive = 7 / 10"
| "spec_default_score Negative = - (7 / 10)"
| "spec_default_score Neutral = 0"

definition spec_score :: "env \<Rightarrow> string \<Rightarrow> rat" where
  "spec_score e c =
     (case spec_first_number c of
        None \<Rightarrow> spec_default_score (spec_category c)
      | Some m \<Rightarrow>
          (case pyfloat e m of
             None \<Rightarrow> spec_default_score (spec_category c)
           | Some x \<Rightarrow>
               if - 1 \<le> x \<and> x \<le> 1 then x else spec_default_score (spec_category c)))"

text \<open>
  The response text the code classifies: the string under \<^verbatim>\<open>content\<close> of a JSON
  object that came with status 200, the empty string when the object has no such field,
  and none in every other case.
\<close>

definition completion_text :: "nat \<Rightarrow> body \<Rightarrow> string option" where
  "completion_text status b =
     (if status = 200 then
        (case b of
           Object (Text c) \<Rightarrow> Some c
         | Object Absent \<Rightarrow> Some []
         | _ \<Rightarrow> None)
      else None)"

text \<open>
  A failure in the words of the specification: no response (timeout, network error), a
  status outside 200..299, or a malformed payload, that is a body that is not a JSON
  object with a string under \<^verbatim>\<open>content\<close>.
\<close>

definition spec_failure :: "http_reply \<Rightarrow> bool" where
  "spec_failure reply =
     (case reply of
        NoResponse \<Rightarrow> True
      | Response status b \<Rightarrow>
          status < 200 \<or> 300 \<le> status \<or> (case b of Object (Text c) \<Rightarrow> False | _ \<Rightarrow> True))"

section \<open>The store and the ingestion pipeline\<close>

text \<open>
  The state of the process: table \<^verbatim>\<open>posts\<close> in row order, the number of external
  interactions made so far (it indexes the oracles), and a trace of the effects the properties
  below speak of: a source fetched, a classifier call issued for a post, a row written, a
  cleanup that ran to its commit.
\<close>

datatype effect =
    Fetch string
  | Classify string string
  | Insert string
  | Cleanup nat

record world =
  posts_table :: "row list"
  tick :: nat
  trace :: "effect list"

definition AI_SUBREDDITS :: "string list" where
  "AI_SUBREDDITS =
     [''LocalLLaMA'', ''machinelearning'', ''artificial'', ''OpenAI'', ''ClaudeAI'',
      ''deeplearning'', ''MachineLearning'', ''ArtificialInteligence'', ''llama'', ''ollama'',
      ''transformers'', ''huggingface'', ''AIethics'', ''agetech'', ''LanguageModel'']"

definition MAX_POSTS_PER_FETCH :: nat where
  "MAX_POSTS_PER_FETCH = 25"

definition KEEP_MONTHS :: int where
  "KEEP_MONTHS = 6"

text \<open>One external interaction has happened: the oracles move on.\<close>

definition step :: "world \<Rightarrow> world" where
  "step w = w\<lparr>tick := Suc (tick w)\<rparr>"

definition emit :: "effect \<Rightarrow> world \<Rightarrow> world" where
  "emit ef w = w\<lparr>trace := trace w @ [ef]\<rparr>"

text \<open>
  \<^verbatim>\<open>cleanup_old_posts()\<close>, lines 234 to 247. The function has no \<^verbatim>\<open>try\<close>: when a
  statement of the connection raises, nothing is committed and the exception leaves the
  function. Otherwise the rows created before the cutoff are gone.
\<close>

definition cleanup_old_posts :: "env \<Rightarrow> world \<Rightarrow> unit outcome \<times> world" where
  "cleanup_old_posts e w =
     (let cutoff = clock e (tick w) - timedelta_days (KEEP_MONTHS * 30)
      in if sqlite_raises e (tick w) then (Raised SqliteError, step w)
         else
           (let kept = filter (\<lambda>r. \<not> created_utc r < cutoff) (posts_table w);
                deleted = length (posts_table w) - length kept
            in (Returned (), emit (Cleanup deleted) (step (w\<lparr>posts_table := kept\<rparr>)))))"

text \<open>
  \<^verbatim>\<open>fetch_reddit_posts(subreddit, limit)\<close>, lines 250 to 286: a failed request is
  caught and gives the empty list; a missing key raises.
\<close>

definition fetch_reddit_posts :: "env \<Rightarrow> nat \<Rightarrow> string \<Rightarrow> nat \<Rightarrow> post list outcome" where
  "fetch_reddit_posts e k sub limit =
     (case reddit e k sub limit of
        Unreachable \<Rightarrow> Returned []
      | Malformed \<Rightarrow> Raised KeyError
      | Listing posts \<Rightarrow> Returned posts)"

text \<open>
  \<^verbatim>\<open>store_post(post, sentiment, score)\<close>, lines 349 to 381:
  \<^verbatim>\<open>INSERT OR REPLACE\<close> removes a row with the same primary key and appends the new
  one; \<^verbatim>\<open>analyzed_at\<close> is the time of the call.
\<close>

definition store_post ::
  "env \<Rightarrow> world \<Rightarrow> post \<Rightarrow> sentiment option \<Rightarrow> rat option \<Rightarrow> unit outcome \<times> world" where
  "store_post e w p sent sc =
     (if sqlite_raises e (tick w) then (Raised SqliteError, step w)
      else
        (let new_row = post.extend p (row.fields sent sc (clock e (tick w)));
             others = filter (\<lambda>r. post_id r \<noteq> post_id p) (posts_table w)
         in (Returned (),
             emit (Insert (post_id p)) (step (w\<lparr>posts_table := others @ [new_row]\<rparr>)))))"

text \<open>
  The loop of \<^verbatim>\<open>fetch_and_analyze_subreddit\<close>, lines 390 to 410, over the posts that
  are left, with the counter \<^verbatim>\<open>analyzed\<close>. The existence query, the classifier call,
  the insert and the sleep are one external interaction each.
\<close>

fun analyze_posts :: "env \<Rightarrow> post list \<Rightarrow> nat \<Rightarrow> world \<Rightarrow> nat outcome \<times> world" where
  "analyze_posts e [] analyzed w = (Returned analyzed, w)"
| "analyze_posts e (p # rest) analyzed w =
     (if sqlite_raises e (tick w) then (Raised SqliteError, step w)
      else if post_id p \<in> set (map post_id (posts_table w))
      then analyze_posts e rest analyzed (step w)
      else
        (let w1 = step w;
             text = title p @ '' '' @ take 200 (selftext p);
             (sent, sc) = analyze_sentiment e (tick w1) text;
             w2 = emit (Classify (post_id p) text) (step w1)
         in case store_post e w2 p sent sc of
              (Raised ex, w3) \<Rightarrow> (Raised ex, w3)
            | (Returned u, w3) \<Rightarrow> analyze_posts e rest (analyzed + 1) (step w3)))"

text \<open>\<^verbatim>\<open>fetch_and_analyze_subreddit(subreddit)\<close>, lines 384 to 413.\<close>

definition fetch_and_analyze_subreddit :: "env \<Rightarrow> world \<Rightarrow> string \<Rightarrow> nat outcome \<times> world" where
  "fetch_and_analyze_subreddit e w sub =
     (let w1 = emit (Fetch sub) (step w)
      in case fetch_reddit_posts e (tick w) sub MAX_POSTS_PER_FETCH of
           Raised ex \<Rightarrow> (Raised ex, w1)
         | Returned posts \<Rightarrow> analyze_posts e posts 0 w1)"

text \<open>
  The \<^verbatim>\<open>for\<close> loop of \<^verbatim>\<open>background_fetcher\<close>, lines 421 to 426: an exception of one
  source is caught and printed, and the loop goes on with the next source.
\<close>

fun sweep_sources :: "env \<Rightarrow> string list \<Rightarrow> nat \<Rightarrow> world \<Rightarrow> nat \<times> world" where
  "sweep_sources e [] total_analyzed w = (total_analyzed, w)"
| "sweep_sources e (sub # rest) total_analyzed w =
     (case fetch_and_analyze_subreddit e w sub of
        (Returned analyzed, w1) \<Rightarrow> sweep_sources e rest (total_analyzed + analyzed) w1
      | (Raised ex, w1) \<Rightarrow> sweep_sources e rest total_analyzed w1)"

text \<open>
  \<^verbatim>\<open>background_fetcher()\<close>, lines 417 to 435. The \<^verbatim>\<open>while True\<close> loop never
  returns; the model runs at most \<open>n\<close> iterations of it. The result is \<open>None\<close> when
  the task is still alive after \<open>n\<close> sweeps, and \<open>Some ex\<close> when an exception has
  left the loop and ended the task. The call of \<^verbatim>\<open>cleanup_old_posts()\<close> on line 429
  stands outside the \<^verbatim>\<open>try\<close> of the \<^verbatim>\<open>for\<close> loop.
\<close>

fun background_fetcher :: "env \<Rightarrow> nat \<Rightarrow> world \<Rightarrow> exn option \<times> world" where
  "background_fetcher e 0 w = (None, w)"
| "background_fetcher e (Suc n) w =
     (case sweep_sources e AI_SUBREDDITS 0 w of
        (total_analyzed, w1) \<Rightarrow>
          (case cleanup_old_posts e w1 of
             (Raised ex, w2) \<Rightarrow> (Some ex, w2)
           | (Returned u, w2) \<Rightarrow> background_fetcher e n (step w2)))"

section \<open>Aggregation: percentages and overall tone\<close>

text \<open>Python's true division \<^verbatim>\<open>a / b\<close> on two lengths; it raises on a zero divisor.\<close>

definition truediv :: "nat \<Rightarrow> nat \<Rightarrow> rat outcome" where
  "truediv a b = (if b = 0 then Raised ZeroDivisionError else Returned (of_nat a / of_nat b))"

text \<open>
  \<^verbatim>\<open>positive_percent = (positive_count / total * 100) if total > 0 else 0\<close>
  (lines 701 and 856) and the same expression for \<^verbatim>\<open>negative_percent\<close> (lines 702 and
  857). The division is only evaluated in the first branch of the conditional
  expression.
\<close>

definition positive_percent :: "nat \<Rightarrow> nat \<Rightarrow> rat outcome" where
  "positive_percent positive_count n_total =
     (if n_total > 0 then
        (case truediv positive_count n_total of
           Raised e \<Rightarrow> Raised e
         | Returned x \<Rightarrow> Returned (x * 100))
      else Returned 0)"

definition negative_percent :: "nat \<Rightarrow> nat \<Rightarrow> rat outcome" where
  "negative_percent negative_count n_total =
     (if n_total > 0 then
        (case truediv negative_count n_total of
           Raised e \<Rightarrow> Raised e
         | Returned x \<Rightarrow> Returned (x * 100))
      else Returned 0)"

text \<open>
  The \<^verbatim>\<open>if/elif\<close> chain that sets \<^verbatim>\<open>overall_tone\<close> (lines 705 to 716 in
  \<^verbatim>\<open>search_analysis\<close>, repeated verbatim at lines 859 to 870 in
  \<^verbatim>\<open>search_analysis_stream\<close>).
\<close>

definition overall_tone :: "rat \<Rightarrow> rat \<Rightarrow> string" where
  "overall_tone pos_pct neg_pct =
     (if pos_pct > 60 then ''Mostly Positive''
      else if neg_pct > 60 then ''Mostly Negative''
      else if pos_pct > 40 \<and> neg_pct > 40 then ''Mixed (Polarized)''
      else if pos_pct > 30 \<and> neg_pct < 20 then ''Slightly Positive''
      else if neg_pct > 30 \<and> pos_pct < 20 then ''Slightly Negative''
      else ''Neutral/Mixed'')"

text \<open>
  The specification's reading of the same policy, for comparison: a list of five guarded
  rules in priority order, the first rule whose guard holds decides, and the sixth label is
  the default.
\<close>

definition spec_tone_rules :: "((rat \<Rightarrow> rat \<Rightarrow> bool) \<times> string) list" where
  "spec_tone_rules =
     [(\<lambda>p n. p > 60, ''Mostly Positive''),
      (\<lambda>p n. n > 60, ''Mostly Negative''),
      (\<lambda>p n. p > 40 \<and> n > 40, ''Mixed (Polarized)''),
      (\<lambda>p n. p > 30 \<and> n < 20, ''Slightly Positive''),
      (\<lambda>p n. n > 30 \<and> p < 20, ''Slightly Negative'')]"

definition spec_overallTone :: "rat \<Rightarrow> rat \<Rightarrow> string" where
  "spec_overallTone p n =
     (case find (\<lambda>rule. fst rule p n) spec_tone_rules of
        Some rule \<Rightarrow> snd rule
      | None \<Rightarrow> ''Neutral/Mixed'')"

definition tone_labels :: "string list" where
  "tone_labels =
     [''Mostly Positive'', ''Mostly Negative'', ''Mixed (Polarized)'',
      ''Slightly Positive'', ''Slightly Negative'', ''Neutral/Mixed'']"

section \<open>Query endpoints: distribution, timeline and search\<close>

text \<open>
  The endpoints read the table at one moment; they are modelled on a database that
  answers. \<^verbatim>\<open>if subreddit and subreddit.lower() != "all"\<close> selects one source;
  otherwise every row passes.
\<close>

definition source_selected :: "string option \<Rightarrow> row \<Rightarrow> bool" where
  "source_selected sub r =
     (case sub of
        None \<Rightarrow> True
      | Some name \<Rightarrow> if name \<noteq> [] \<and> lower name \<noteq> ''all'' then subreddit r = name else True)"

text \<open>
  A dictionary \<^verbatim>\<open>{"positive": 0, "neutral": 0, "negative": 0}\<close> is a function from the
  three categories to counts.
\<close>

definition zero_counts :: "sentiment \<Rightarrow> nat" where
  "zero_counts = (\<lambda>s. 0)"




record timeline_data =
  tl_labels :: "int list"
  tl_positive :: "nat list"
  tl_neutral :: "nat list"
  tl_negative :: "nat list"

text \<open>
  The query of \<^verbatim>\<open>get_timeline\<close> (lines 1147 to 1168): one result row for each pair of
  a date and a sentiment that occurs among the selected rows, with its count. The order of
  the result rows (\<^verbatim>\<open>ORDER BY date DESC\<close>) does not matter to the dictionary built from
  them, since no two result rows share date and sentiment.
\<close>

definition timeline_query ::
  "row list \<Rightarrow> string option \<Rightarrow> datetime \<Rightarrow> (int \<times> sentiment \<times> nat) list" where
  "timeline_query tbl sub cutoff =
     (let selected = filter (\<lambda>r. source_selected sub r \<and> created_utc r > cutoff) tbl;
          labelled = concat (map (\<lambda>r. case sentiment r of
                                           None \<Rightarrow> []
                                         | Some s \<Rightarrow> [(date_of (created_utc r), s)]) selected)
      in map (\<lambda>(d, s). (d, s, length (filter (\<lambda>x. x = (d, s)) labelled))) (remdups labelled))"

text \<open>The loop of lines 1170 to 1175 that fills \<^verbatim>\<open>date_data\<close>.\<close>

definition date_data_of :: "(int \<times> sentiment \<times> nat) list \<Rightarrow> (int \<rightharpoonup> (sentiment \<Rightarrow> nat))" where
  "date_data_of result_rows =
     foldl (\<lambda>date_data (d, s, n).
              (let counts = (case date_data d of None \<Rightarrow> zero_counts | Some c \<Rightarrow> c)
               in date_data(d \<mapsto> counts(s := n))))
       Map.empty result_rows"

text \<open>\<^verbatim>\<open>range(days - 1, -1, -1)\<close>: from \<open>days - 1\<close> down to 0; empty when \<open>days \<le> 0\<close>.\<close>

definition range_down :: "int \<Rightarrow> int list" where
  "range_down days = map int (rev [0..<nat days])"

text \<open>
  \<^verbatim>\<open>get_timeline(subreddit, days)\<close>, lines 1136 to 1192, at the time \<open>now\<close>. The loop
  of lines 1184 to 1190 appends, for each \<open>i\<close> of the range in turn, the date of
  \<^verbatim>\<open>cutoff + timedelta(days=i)\<close> and its three counts.
\<close>

definition get_timeline :: "row list \<Rightarrow> datetime \<Rightarrow> string option \<Rightarrow> int \<Rightarrow> timeline_data" where
  "get_timeline tbl now sub days =
     (let cutoff = now - timedelta_days days;
          date_data = date_data_of (timeline_query tbl sub cutoff);
          dates = map (\<lambda>i. date_of (cutoff + timedelta_days i)) (range_down days);
          data = (\<lambda>d. case date_data d of None \<Rightarrow> zero_counts | Some c \<Rightarrow> c)
      in \<lparr>tl_labels = dates,
          tl_positive = map (\<lambda>d. data d Positive) dates,
          tl_neutral = map (\<lambda>d. data d Neutral) dates,
          tl_negative = map (\<lambda>d. data d Negative) dates\<rparr>)"

text \<open>
  The filters shared by the three search endpoints:
  \<^verbatim>\<open>[s.strip() for s in subreddits.split(",")]\<close> when the parameter is a non-empty string.
\<close>

definition filter_subreddits :: "string option \<Rightarrow> row list \<Rightarrow> row list" where
  "filter_subreddits subreddits all_posts =
     (case subreddits of
        None \<Rightarrow> all_posts
      | Some names \<Rightarrow>
          if names = [] then all_posts
          else filter (\<lambda>p. subreddit p \<in> set (map strip (split_on CHR '','' names))) all_posts)"




text \<open>
  \<^verbatim>\<open>get_stats()\<close>, lines 480 to 520: the number of rows, the counts of the second
  query (\<^verbatim>\<open>WHERE sentiment IS NOT NULL GROUP BY sentiment\<close>) read with
  \<^verbatim>\<open>sentiment_counts.get(label, 0)\<close>, and the number of rows of each source. No
  timestamp column is selected. The field \<^verbatim>\<open>last_updated\<close> reads the column
  \<^verbatim>\<open>fetched_at\<close>, which is not part of the model, and is left out.
\<close>

record stats =
  st_total_posts :: nat
  st_positive :: nat
  st_neutral :: nat
  st_negative :: nat
  st_subreddits :: "string \<rightharpoonup> nat"
  st_monitored_subreddits :: nat



section \<open>Topical analysis\<close>

record citation =
  cit_title :: string
  cit_subreddit :: string
  cit_author :: string
  cit_sentiment :: string
  cit_score :: int
  cit_url :: string

record sentiment_summary =
  sum_positive :: nat
  sum_neutral :: nat
  sum_negative :: nat
  sum_total :: nat
  sum_positive_percent :: rat
  sum_negative_percent :: rat
  sum_overall_tone :: string

record search_analysis_payload =
  sa_query :: string
  sa_summary :: string
  sa_sentiment_summary :: sentiment_summary
  sa_positive_examples :: "citation list"
  sa_negative_examples :: "citation list"
  sa_neutral_examples :: "citation list"

definition apostrophe :: string where
  "apostrophe = [CHR 0x27]"

definition dquote :: string where
  "dquote = [CHR 0x22]"

text \<open>\<^verbatim>\<open>make_citation(post)\<close>, lines 719 to 727 and 873 to 881.\<close>

definition make_citation :: "row \<Rightarrow> citation" where
  "make_citation p =
     \<lparr>cit_title = (if length (title p) > 100 then take 100 (title p) @ ''...'' else title p),
      cit_subreddit = subreddit p,
      cit_author = author p,
      cit_sentiment = (case sentiment p of None \<Rightarrow> ''unknown'' | Some s \<Rightarrow> sentiment_str s),
      cit_score = score p,
      cit_url = permalink p\<rparr>"

text \<open>
  The payload both analysis endpoints return when the full-text query matches nothing
  (lines 628 to 643 and 779 to 798).
\<close>

definition no_posts_payload :: "string \<Rightarrow> search_analysis_payload" where
  "no_posts_payload q =
     \<lparr>sa_query = q,
      sa_summary = ''No posts found about '' @ apostrophe @ q @ apostrophe,
      sa_sentiment_summary =
        \<lparr>sum_positive = 0, sum_neutral = 0, sum_negative = 0, sum_total = 0,
         sum_positive_percent = 0, sum_negative_percent = 0, sum_overall_tone = ''Unknown''\<rparr>,
      sa_positive_examples = [],
      sa_negative_examples = [],
      sa_neutral_examples = []\<rparr>"

text \<open>
  The posts both endpoints analyse: the rows read, filtered by source, sorted by
  \<^verbatim>\<open>score + num_comments\<close> in descending order (a stable sort), cut to
  \<^verbatim>\<open>limit\<close> (lines 677 to 686 and 837 to 844).
\<close>

definition analysed_posts :: "row list \<Rightarrow> string option \<Rightarrow> int \<Rightarrow> row list" where
  "analysed_posts rows subreddits limit =
     slice_to limit (sort_key (\<lambda>p. - (score p + num_comments p)) (filter_subreddits subreddits rows))"

text \<open>The three lists of lines 689 to 693 and 847 to 849.\<close>

definition positive_posts :: "row list \<Rightarrow> row list" where
  "positive_posts all_posts = filter (\<lambda>p. sentiment p = Some Positive) all_posts"

definition negative_posts :: "row list \<Rightarrow> row list" where
  "negative_posts all_posts = filter (\<lambda>p. sentiment p = Some Negative) all_posts"

definition neutral_posts :: "row list \<Rightarrow> row list" where
  "neutral_posts all_posts =
     filter (\<lambda>p. sentiment p \<noteq> Some Positive \<and> sentiment p \<noteq> Some Negative) all_posts"

text \<open>The snippets of the summary prompt (lines 906 to 912 and 995 to 1000).\<close>

definition snippet :: "row \<Rightarrow> string" where
  "snippet p =
     ''Title: '' @ title p @ newline @
     ''Content: '' @ (if selftext p \<noteq> [] then take 200 (selftext p) else ''N/A'')"

fun join :: "string \<Rightarrow> string list \<Rightarrow> string" where
  "join sep [] = []"
| "join sep [x] = x"
| "join sep (x # y # rest) = x @ sep @ join sep (y # rest)"

definition content_text :: "row list \<Rightarrow> string" where
  "content_text all_posts = join (newline @ ''---'' @ newline) (map snippet (take 10 all_posts))"

definition summary_prompt :: "string \<Rightarrow> string \<Rightarrow> string \<Rightarrow> string \<Rightarrow> string \<Rightarrow> string \<Rightarrow> string" where
  "summary_prompt q pos neg neu tone posts_text =
     ''Analyze Reddit discussions about '' @ dquote @ q @ dquote @ ''.'' @ newline @ newline @
     ''Stats: '' @ pos @ '' positive, '' @ neg @ '' negative, '' @ neu @
     '' neutral posts. Overall tone: '' @ tone @ ''.'' @ newline @ newline @
     ''Recent posts:'' @ newline @ posts_text @ newline @ newline @
     ''Write a 2-3 sentence summary of what people are discussing and their general sentiment. Be concise and factual.''"

definition chat_prompt :: "string \<Rightarrow> string" where
  "chat_prompt prompt =
     ''<|im_start|>user'' @ newline @ prompt @ newline @ ''<|im_end|>'' @ newline @
     ''<|im_start|>assistant'' @ newline"

text \<open>
  The fallback summary of the streaming endpoint (lines 953 and 957), with
  \<^verbatim>\<open>overall_tone.lower()\<close>.
\<close>

definition stream_fallback :: "nat \<Rightarrow> string \<Rightarrow> string \<Rightarrow> nat \<Rightarrow> nat \<Rightarrow> nat \<Rightarrow> string" where
  "stream_fallback n q tone positive_count negative_count neutral_count =
     ''Found '' @ str_nat n @ '' discussions about '' @ apostrophe @ q @ apostrophe @
     ''. The community sentiment is '' @ lower tone @ '' with '' @ str_nat positive_count @
     '' positive, '' @ str_nat negative_count @ '' negative, and '' @ str_nat neutral_count @
     '' neutral reactions.''"

subsection \<open>The non-streaming summary\<close>









subsection \<open>The streaming endpoint\<close>

datatype event =
    Status string
  | SentimentStats sentiment_summary
  | SummaryChunk string string
  | Complete search_analysis_payload

text \<open>
  The loop over the streamed lines (lines 939 to 950), from the text accumulated so far:
  the events it yields, and the accumulated text when the loop ends without an
  exception.
\<close>

fun read_stream :: "sse_line list \<Rightarrow> string \<Rightarrow> event list \<times> string option" where
  "read_stream [] accumulated = ([], Some accumulated)"
| "read_stream (OtherLine # rest) accumulated = read_stream rest accumulated"
| "read_stream (BadJson # rest) accumulated = read_stream rest accumulated"
| "read_stream (NoContent # rest) accumulated = read_stream rest accumulated"
| "read_stream (Chunk c # rest) accumulated =
     (case read_stream rest (accumulated @ c) of
        (events, result) \<Rightarrow> (SummaryChunk c (accumulated @ c) # events, result))"
| "read_stream (Broken # rest) accumulated = ([], None)"

text \<open>
  Lines 923 to 957: the events of the summary stage and the final value of
  \<^verbatim>\<open>accumulated\<close>. The variable is first assigned after the status check, so it is
  unbound (and set to the fallback by the test with \<^verbatim>\<open>dir()\<close>) when the status is not
  200, and it is set to the fallback by the handler when an exception is raised.
\<close>

definition summarize_stream :: "env \<Rightarrow> string \<Rightarrow> string \<Rightarrow> event list \<times> string" where
  "summarize_stream e prompt fallback =
     (case llama_stream e (chat_prompt prompt) of
        NoStream \<Rightarrow> ([], fallback)
      | Stream status lines \<Rightarrow>
          if status = 200 then
            (case read_stream lines [] of
               (events, Some accumulated) \<Rightarrow> (events, accumulated)
             | (events, None) \<Rightarrow> (events, fallback))
          else ([], fallback))"

text \<open>
  \<^verbatim>\<open>search_analysis_stream(q, subreddits, limit)\<close>, lines 756 to 983: the events the
  generator yields, in order, and the exception that ends it early, if any. The matching
  rows are read with \<^verbatim>\<open>fetchall\<close> on line 815, after the second status event.
\<close>

definition search_analysis_stream ::
  "env \<Rightarrow> row list \<Rightarrow> string \<Rightarrow> string option \<Rightarrow> int \<Rightarrow> event list \<times> exn option" where
  "search_analysis_stream e tbl q subreddits limit =
     (let searching = Status (''Searching for posts about '' @ dquote @ q @ dquote @ ''...'')
      in case fts5 e q of
           None \<Rightarrow> ([searching], Some SqliteError)
         | Some matches \<Rightarrow>
             if filter matches tbl = [] then ([searching, Complete (no_posts_payload q)], None)
             else
               (let found = Status (''Found '' @ str_nat (length (filter matches tbl)) @
                                    '' posts, fetching details...'')
                in case fetchall (filter matches tbl) of
                     Raised ex \<Rightarrow> ([searching, found], Some ex)
                   | Returned rows \<Rightarrow>
                       (let all_posts = analysed_posts rows subreddits limit;
                            positive_count = length (positive_posts all_posts);
                            negative_count = length (negative_posts all_posts);
                            neutral_count = length (neutral_posts all_posts);
                            n_total = length all_posts
                        in case positive_percent positive_count n_total of
                             Raised ex \<Rightarrow> ([searching, found], Some ex)
                           | Returned pos_pct \<Rightarrow>
                               (case negative_percent negative_count n_total of
                                  Raised ex \<Rightarrow> ([searching, found], Some ex)
                                | Returned neg_pct \<Rightarrow>
                                    (let tone = overall_tone pos_pct neg_pct;
                                         stats =
                                           \<lparr>sum_positive = positive_count,
                                            sum_neutral = neutral_count,
                                            sum_negative = negative_count,
                                            sum_total = n_total,
                                            sum_positive_percent = round1 e pos_pct,
                                            sum_negative_percent = round1 e neg_pct,
                                            sum_overall_tone = tone\<rparr>;
                                         prompt = summary_prompt q (str_nat positive_count)
                                                    (str_nat negative_count) (str_nat neutral_count) tone
                                                    (content_text all_posts);
                                         fallback = stream_fallback (length all_posts) q tone
                                                      positive_count negative_count neutral_count;
                                         (chunks, accumulated) = summarize_stream e prompt fallback
                                     in ([searching, found, SentimentStats stats,
                                          Status ''Generating AI summary...''] @ chunks @
                                         [Complete
                                            \<lparr>sa_query = q,
                                             sa_summary = accumulated,
                                             sa_sentiment_summary = stats,
                                             sa_positive_examples = map make_citation (take 3 (positive_posts all_posts)),
                                             sa_negative_examples = map make_citation (take 3 (negative_posts all_posts)),
                                             sa_neutral_examples = map make_citation (take 3 (neutral_posts all_posts))\<rparr>],
                                         None))))))"

section \<open>Observations on a run\<close>

text \<open>The effects added to the trace between two states, and the stored rows of an id.\<close>

definition new_effects :: "world \<Rightarrow> world \<Rightarrow> effect list" where
  "new_effects w w' = drop (length (trace w)) (trace w')"

definition stored :: "world \<Rightarrow> string \<Rightarrow> row list" where
  "stored w i = filter (\<lambda>r. post_id r = i) (posts_table w)"


text \<open>The text a streamed line contributes to the summary.\<close>

fun chunk_text :: "sse_line \<Rightarrow> string" where
  "chunk_text (Chunk c) = c"
| "chunk_text l = []"




definition other_count :: "row list \<Rightarrow> nat" where
  "other_count rows =
     length (filter (\<lambda>r. sentiment r \<noteq> Some Positive \<and> sentiment r \<noteq> Some Negative) rows)"


fun is_cleanup :: "effect \<Rightarrow> bool" where
  "is_cleanup (Cleanup n) = True"
| "is_cleanup ef = False"

section \<open>Sample inputs\<close>

text \<open>
  The exact value of a decimal literal, as a stand-in for \<^verbatim>\<open>float\<close> in the sample
  environment (Python rounds this value to the nearest double).
\<close>

definition digits_value :: "string \<Rightarrow> nat" where
  "digits_value ds = foldl (\<lambda>acc c. 10 * acc + (of_char c - 48)) 0 ds"

definition decimal_value :: "string \<Rightarrow> rat option" where
  "decimal_value s =
     (let negative = (take 1 s = ''-'');
          unsigned = (if take 1 s = ''-'' \<or> take 1 s = ''+'' then drop 1 s else s);
          whole = takeWhile is_digit unsigned;
          rest = dropWhile is_digit unsigned;
          frac = drop 1 rest
      in if (rest = [] \<and> whole \<noteq> []) \<or> (take 1 rest = ''.'' \<and> frac \<noteq> [] \<and> list_all is_digit frac)
         then Some ((if negative then - 1 else 1) *
                    (of_nat (digits_value whole) + of_nat (digits_value frac) / 10 ^ length frac))
         else None)"

text \<open>
  An environment in which nothing answers and nothing fails, and a post; the samples
  below override single fields.
\<close>

definition quiet_env :: env where
  "quiet_env =
     \<lparr>reddit = (\<lambda>k sub limit. Unreachable),
      llama = (\<lambda>k prompt. NoResponse),
      llama_stream = (\<lambda>prompt. NoStream),
      sqlite_raises = (\<lambda>k. False),
      clock = (\<lambda>k. 200 * day_us + int k),
      fts5 = (\<lambda>q. Some (\<lambda>r. contains q (title r))),
      pyfloat = decimal_value,
      round1 = (\<lambda>x. x)\<rparr>"

definition sample_post :: "string \<Rightarrow> string \<Rightarrow> datetime \<Rightarrow> post" where
  "sample_post i sub t =
     \<lparr>post_id = i, title = ''llama '' @ i, selftext = [], author = ''u'', score = 1, ups = 1,
      downs = 0, num_comments = 0, created_utc = t, permalink = ''https://reddit.com/'' @ i,
      url = [], subreddit = sub\<rparr>"

definition sample_row :: "string \<Rightarrow> string \<Rightarrow> datetime \<Rightarrow> sentiment option \<Rightarrow> row" where
  "sample_row i sub t sent = post.extend (sample_post i sub t) (row.fields sent None t)"

definition sample_world :: "row list \<Rightarrow> world" where
  "sample_world rows = \<lparr>posts_table = rows, tick = 0, trace = []\<rparr>"

definition reply_env :: "http_reply \<Rightarrow> env" where
  "reply_env reply = quiet_env\<lparr>llama := (\<lambda>k prompt. reply)\<rparr>"

text \<open>
  The first cleanup fails: with no source reachable, the statement of
  \<^verbatim>\<open>cleanup_old_posts\<close> in the first sweep is interaction number 15 (after the 15
  fetches), and it raises, as SQLite does on a locked database or an I/O error.
\<close>

definition locked_env :: env where
  "locked_env = quiet_env\<lparr>sqlite_raises := (\<lambda>k. k = 15)\<rparr>"

text \<open>Every source answers with JSON that lacks a key: each fetch raises.\<close>

definition malformed_env :: env where
  "malformed_env = quiet_env\<lparr>reddit := (\<lambda>k sub limit. Malformed)\<rparr>"

text \<open>
  The server answers the streamed summary request with status 200 and no usable line: no
  chunk of content arrives before the stream ends.
\<close>

definition empty_stream_env :: env where
  "empty_stream_env = quiet_env\<lparr>llama_stream := (\<lambda>prompt. Stream 200 [OtherLine, NoContent])\<rparr>"

definition listing_env :: "post list \<Rightarrow> env" where
  "listing_env ps = quiet_env\<lparr>reddit := (\<lambda>k sub limit. Listing ps)\<rparr>"

section \<open>Properties of the aggregation\<close>

lemma overall_tone_first_match: "overall_tone p n = spec_overallTone p n"
  by (simp add: overall_tone_def spec_overallTone_def spec_tone_rules_def)

lemma overall_tone_label: "overall_tone p n \<in> set tone_labels"
  by (simp add: overall_tone_def tone_labels_def)

lemma tone_labels_distinct: "distinct tone_labels"
  by (simp add: tone_labels_def)

text \<open>
  Claim C3. The tone is a function of the two percentages alone; for every pair it is the
  label of the first rule of the priority list whose guard holds (the sixth label when
  none does), hence exactly one of the six distinct labels; and the four sample pairs
  (70, 10), (45, 45), (35, 10), (25, 25) get the labels the specification lists.
\<close>

theorem overall_tone_priority:
  "overall_tone p n = spec_overallTone p n
   \<and> overall_tone p n \<in> set tone_labels
   \<and> distinct tone_labels \<and> length tone_labels = 6
   \<and> overall_tone 70 10 = ''Mostly Positive''
   \<and> overall_tone 45 45 = ''Mixed (Polarized)''
   \<and> overall_tone 35 10 = ''Slightly Positive''
   \<and> overall_tone 25 25 = ''Neutral/Mixed''"
proof -
  have samples: "overall_tone 70 10 = ''Mostly Positive''"
    "overall_tone 45 45 = ''Mixed (Polarized)''"
    "overall_tone 35 10 = ''Slightly Positive''"
    "overall_tone 25 25 = ''Neutral/Mixed''"
    by (simp_all add: overall_tone_def)
  have "length tone_labels = 6"
    by (simp add: tone_labels_def)
  with samples show ?thesis
    using overall_tone_first_match overall_tone_label tone_labels_distinct by simp
qed

theorem overall_tone_priority_witness:
  "overall_tone 50 45 = ''Mixed (Polarized)'' \<and> spec_overallTone 50 45 = ''Mixed (Polarized)''"
proof -
  have "overall_tone 50 45 = ''Mixed (Polarized)''"
    by (simp add: overall_tone_def)
  then show ?thesis
    using overall_tone_priority [of 50 45] by simp
qed

text \<open>
  Claim C9. The two percentages never raise: for every pair of counts the result is a
  value, equal to \<open>count / total * 100\<close> when the total is positive and to 0 when the
  total is 0; the division is not evaluated on a zero total.
\<close>

theorem percentages_total:
  "positive_percent positive_count n_total =
     Returned (if n_total > 0 then of_nat positive_count / of_nat n_total * 100 else 0)
   \<and> negative_percent negative_count n_total =
     Returned (if n_total > 0 then of_nat negative_count / of_nat n_total * 100 else 0)"
  by (simp add: positive_percent_def negative_percent_def truediv_def)

theorem percentages_total_witness:
  "positive_percent 3 4 = Returned 75 \<and> negative_percent 1 4 = Returned 25
   \<and> positive_percent 0 0 = Returned 0 \<and> negative_percent 0 0 = Returned 0"
  using percentages_total [of 3 4 1] percentages_total [of 0 0 0] by simp

section \<open>Properties of the ingestion pipeline\<close>

lemma step_simps [simp]: "posts_table (step w) = posts_table w" "trace (step w) = trace w" "tick (step w) = Suc (tick w)"
  by (simp_all add: step_def)

lemma emit_simps [simp]: "posts_table (emit ef w) = posts_table w" "trace (emit ef w) = trace w @ [ef]" "tick (emit ef w) = tick w"
  by (simp_all add: emit_def)

lemma post_id_extend [simp]: "post_id (post.extend p f) = post_id p"
  by (simp add: post.defs)

lemma store_post_absent:
  assumes "store_post e w p sent sc = (res, w')"
    and "post_id p \<notin> post_id ` set (posts_table w)"
  shows "(res = Raised SqliteError \<and> posts_table w' = posts_table w \<and> trace w' = trace w)
       \<or> (res = Returned () \<and> (\<exists>r. post_id r = post_id p \<and> posts_table w' = posts_table w @ [r])
            \<and> trace w' = trace w @ [Insert (post_id p)])"
proof -
  have "filter (\<lambda>r. post_id r \<noteq> post_id p) (posts_table w) = posts_table w"
    unfolding filter_id_conv using assms(2) by (metis imageI)
  with assms(1) show ?thesis
    by (auto simp: store_post_def Let_def split: if_splits)
qed

lemma analyze_posts_frame:
  "analyze_posts e ps a w = (res, w') \<Longrightarrow>
   \<exists>new tr. posts_table w' = posts_table w @ new \<and> trace w' = trace w @ tr
     \<and> (\<forall>r\<in>set new. post_id r \<notin> post_id ` set (posts_table w))
     \<and> (\<forall>i t. Classify i t \<in> set tr \<longrightarrow> i \<notin> post_id ` set (posts_table w))
     \<and> (\<forall>i. Insert i \<in> set tr \<longrightarrow> i \<notin> post_id ` set (posts_table w))"
proof (induction ps arbitrary: a w)
  case Nil
  then show ?case by simp
next
  case (Cons p rest)
  show ?case
  proof (cases "sqlite_raises e (tick w)")
    case True
    with Cons.prems show ?thesis by auto
  next
    case noraise: False
    show ?thesis
    proof (cases "post_id p \<in> post_id ` set (posts_table w)")
      case True
      with noraise Cons.prems have "analyze_posts e rest a (step w) = (res, w')" by simp
      from Cons.IH [OF this] show ?thesis by simp
    next
      case absent: False
      define ptext where "ptext = title p @ '' '' @ take 200 (selftext p)"
      define w2 where "w2 = emit (Classify (post_id p) ptext) (step (step w))"
      obtain sent sc where as: "analyze_sentiment e (tick (step w)) ptext = (sent, sc)"
        by (cases "analyze_sentiment e (tick (step w)) ptext")
      obtain r3 w3 where sp: "store_post e w2 p sent sc = (r3, w3)"
        by (cases "store_post e w2 p sent sc")
      have abs2: "post_id p \<notin> post_id ` set (posts_table w2)"
        using absent by (simp add: w2_def)
      from store_post_absent [OF sp abs2] show ?thesis
      proof
        assume f: "r3 = Raised SqliteError \<and> posts_table w3 = posts_table w2 \<and> trace w3 = trace w2"
        with Cons.prems noraise absent as sp have "w' = w3"
          by (simp add: Let_def ptext_def w2_def)
        with f absent show ?thesis
          by (auto simp: w2_def)
      next
        assume ok: "r3 = Returned () \<and> (\<exists>r. post_id r = post_id p \<and> posts_table w3 = posts_table w2 @ [r])
            \<and> trace w3 = trace w2 @ [Insert (post_id p)]"
        then obtain r where r: "post_id r = post_id p" "posts_table w3 = posts_table w @ [r]"
          by (auto simp: w2_def)
        from ok Cons.prems noraise absent as sp
        have "analyze_posts e rest (a + 1) (step w3) = (res, w')"
          by (simp add: Let_def ptext_def w2_def)
        from Cons.IH [OF this] obtain new tr where
          n: "posts_table w' = posts_table (step w3) @ new" "trace w' = trace (step w3) @ tr"
            "\<forall>r\<in>set new. post_id r \<notin> post_id ` set (posts_table (step w3))"
            "\<forall>i t. Classify i t \<in> set tr \<longrightarrow> i \<notin> post_id ` set (posts_table (step w3))"
            "\<forall>i. Insert i \<in> set tr \<longrightarrow> i \<notin> post_id ` set (posts_table (step w3))"
          by blast
        have "posts_table w' = posts_table w @ (r # new)"
          using n(1) r by simp
        moreover have "trace w' = trace w @ (Classify (post_id p) ptext # Insert (post_id p) # tr)"
          using n(2) ok by (simp add: w2_def)
        moreover have "\<forall>x\<in>set (r # new). post_id x \<notin> post_id ` set (posts_table w)"
          using n(3) r absent by auto
        moreover have "\<forall>i t. Classify i t \<in> set (Classify (post_id p) ptext # Insert (post_id p) # tr)
            \<longrightarrow> i \<notin> post_id ` set (posts_table w)"
          using n(4) r absent by auto
        moreover have "\<forall>i. Insert i \<in> set (Classify (post_id p) ptext # Insert (post_id p) # tr)
            \<longrightarrow> i \<notin> post_id ` set (posts_table w)"
          using n(5) r absent by auto
        ultimately show ?thesis by blast
      qed
    qed
  qed
qed

lemma analyze_posts_all_exist:
  "post_id ` set ps \<subseteq> post_id ` set (posts_table w) \<Longrightarrow>
   analyze_posts e ps a w = (res, w') \<Longrightarrow>
   posts_table w' = posts_table w \<and> trace w' = trace w
   \<and> (res = Returned a \<or> res = Raised SqliteError)"
proof (induction ps arbitrary: w)
  case Nil
  then show ?case by auto
next
  case (Cons p rest)
  show ?case
  proof (cases "sqlite_raises e (tick w)")
    case True
    with Cons.prems show ?thesis by auto
  next
    case False
    with Cons.prems have "analyze_posts e rest a (step w) = (res, w')" by auto
    moreover have "post_id ` set rest \<subseteq> post_id ` set (posts_table (step w))"
      using Cons.prems(1) by auto
    ultimately show ?thesis using Cons.IH [of "step w"] by simp
  qed
qed

lemma new_effects_append: "trace w' = trace w @ tr \<Longrightarrow> new_effects w w' = tr"
  by (simp add: new_effects_def)

lemma stored_append_fresh:
  assumes "posts_table w' = posts_table w @ new"
    and "\<forall>r\<in>set new. post_id r \<noteq> i"
  shows "stored w' i = stored w i"
proof -
  have "filter (\<lambda>r. post_id r = i) new = []"
    using assms(2) by (simp add: filter_empty_conv)
  with assms(1) show ?thesis by (simp add: stored_def)
qed

lemma fetch_frame:
  assumes "fetch_and_analyze_subreddit e w sub = (res, w')"
  shows "\<exists>new tr. posts_table w' = posts_table w @ new \<and> trace w' = trace w @ tr
     \<and> (\<forall>r\<in>set new. post_id r \<notin> post_id ` set (posts_table w))
     \<and> (\<forall>i t. Classify i t \<in> set tr \<longrightarrow> i \<notin> post_id ` set (posts_table w))
     \<and> (\<forall>i. Insert i \<in> set tr \<longrightarrow> i \<notin> post_id ` set (posts_table w))"
proof (cases "fetch_reddit_posts e (tick w) sub MAX_POSTS_PER_FETCH")
  case (Raised ex)
  with assms have "w' = emit (Fetch sub) (step w)"
    by (simp add: fetch_and_analyze_subreddit_def)
  then have "posts_table w' = posts_table w @ []" "trace w' = trace w @ [Fetch sub]"
    by simp_all
  then show ?thesis by fastforce
next
  case (Returned posts)
  with assms have run: "analyze_posts e posts 0 (emit (Fetch sub) (step w)) = (res, w')"
    by (simp add: fetch_and_analyze_subreddit_def)
  from analyze_posts_frame [OF run] obtain new tr where
    fr: "posts_table w' = posts_table w @ new" "trace w' = trace w @ (Fetch sub # tr)"
      "\<forall>r\<in>set new. post_id r \<notin> post_id ` set (posts_table w)"
      "\<forall>i t. Classify i t \<in> set tr \<longrightarrow> i \<notin> post_id ` set (posts_table w)"
      "\<forall>i. Insert i \<in> set tr \<longrightarrow> i \<notin> post_id ` set (posts_table w)"
    by auto
  have "\<forall>i t. Classify i t \<in> set (Fetch sub # tr) \<longrightarrow> i \<notin> post_id ` set (posts_table w)"
    using fr(4) by simp
  moreover have "\<forall>i. Insert i \<in> set (Fetch sub # tr) \<longrightarrow> i \<notin> post_id ` set (posts_table w)"
    using fr(5) by simp
  ultimately show ?thesis using fr(1,2,3) by blast
qed

lemma sweep_sources_frame:
  "sweep_sources e subs t w = (t', w') \<Longrightarrow>
   \<exists>new tr. posts_table w' = posts_table w @ new \<and> trace w' = trace w @ tr
     \<and> (\<forall>r\<in>set new. post_id r \<notin> post_id ` set (posts_table w))
     \<and> (\<forall>i t. Classify i t \<in> set tr \<longrightarrow> i \<notin> post_id ` set (posts_table w))
     \<and> (\<forall>i. Insert i \<in> set tr \<longrightarrow> i \<notin> post_id ` set (posts_table w))"
proof (induction subs arbitrary: t w)
  case Nil
  then have "posts_table w' = posts_table w @ []" "trace w' = trace w @ []" by simp_all
  then show ?case by fastforce
next
  case (Cons sub rest)
  obtain r w1 where f: "fetch_and_analyze_subreddit e w sub = (r, w1)"
    by (cases "fetch_and_analyze_subreddit e w sub")
  from fetch_frame [OF f] obtain new1 tr1 where
    a: "posts_table w1 = posts_table w @ new1" "trace w1 = trace w @ tr1"
      "\<forall>r\<in>set new1. post_id r \<notin> post_id ` set (posts_table w)"
      "\<forall>i t. Classify i t \<in> set tr1 \<longrightarrow> i \<notin> post_id ` set (posts_table w)"
      "\<forall>i. Insert i \<in> set tr1 \<longrightarrow> i \<notin> post_id ` set (posts_table w)"
    by blast
  obtain t1 where "sweep_sources e rest t1 w1 = (t', w')"
    using f Cons.prems by (cases r) auto
  from Cons.IH [OF this] obtain new2 tr2 where
    b: "posts_table w' = posts_table w1 @ new2" "trace w' = trace w1 @ tr2"
      "\<forall>r\<in>set new2. post_id r \<notin> post_id ` set (posts_table w1)"
      "\<forall>i t. Classify i t \<in> set tr2 \<longrightarrow> i \<notin> post_id ` set (posts_table w1)"
      "\<forall>i. Insert i \<in> set tr2 \<longrightarrow> i \<notin> post_id ` set (posts_table w1)"
    by blast
  define K where "K = post_id ` set (posts_table w)"
  define K1 where "K1 = post_id ` set (posts_table w1)"
  have sub: "K \<subseteq> K1"
    using a(1) by (auto simp: K_def K1_def)
  note a' = a(3-5) [folded K_def] and b' = b(3-5) [folded K1_def]
  have "posts_table w' = posts_table w @ (new1 @ new2)" "trace w' = trace w @ (tr1 @ tr2)"
    using a(1,2) b(1,2) by simp_all
  moreover have "\<forall>r\<in>set (new1 @ new2). post_id r \<notin> K"
    using a'(1) b'(1) sub by auto
  moreover have "\<forall>i t. Classify i t \<in> set (tr1 @ tr2) \<longrightarrow> i \<notin> K"
    using a'(2) b'(2) sub by auto
  moreover have "\<forall>i. Insert i \<in> set (tr1 @ tr2) \<longrightarrow> i \<notin> K"
    using a'(3) b'(3) sub by auto
  ultimately show ?case unfolding K_def by blast
qed

lemma frame_existing:
  assumes "posts_table w' = posts_table w @ new" and "trace w' = trace w @ tr"
    and "\<forall>r\<in>set new. post_id r \<notin> post_id ` set (posts_table w)"
    and "\<forall>i t. Classify i t \<in> set tr \<longrightarrow> i \<notin> post_id ` set (posts_table w)"
    and "\<forall>i. Insert i \<in> set tr \<longrightarrow> i \<notin> post_id ` set (posts_table w)"
    and "r \<in> set (posts_table w)"
  shows "stored w' (post_id r) = stored w (post_id r)
      \<and> map sentiment (stored w' (post_id r)) = map sentiment (stored w (post_id r))
      \<and> (\<forall>t. Classify (post_id r) t \<notin> set (new_effects w w'))
      \<and> Insert (post_id r) \<notin> set (new_effects w w')"
proof -
  have known: "post_id r \<in> post_id ` set (posts_table w)"
    using assms(6) by simp
  have eff: "new_effects w w' = tr"
    using assms(2) by (rule new_effects_append)
  have "\<forall>x\<in>set new. post_id x \<noteq> post_id r"
    using assms(3) known by metis
  with assms(1) have "stored w' (post_id r) = stored w (post_id r)"
    by (rule stored_append_fresh)
  moreover have "\<forall>t. Classify (post_id r) t \<notin> set (new_effects w w')"
    using assms(4) known eff by auto
  moreover have "Insert (post_id r) \<notin> set (new_effects w w')"
    using assms(5) known eff by auto
  ultimately show ?thesis by simp
qed

lemma sweep_existing:
  assumes "sweep_sources e subs t w = (t', w')" and "r \<in> set (posts_table w)"
  shows "stored w' (post_id r) = stored w (post_id r)
      \<and> map sentiment (stored w' (post_id r)) = map sentiment (stored w (post_id r))
      \<and> (\<forall>t. Classify (post_id r) t \<notin> set (new_effects w w'))
      \<and> Insert (post_id r) \<notin> set (new_effects w w')"
proof -
  from sweep_sources_frame [OF assms(1)] obtain new tr where
    "posts_table w' = posts_table w @ new" "trace w' = trace w @ tr"
    "\<forall>r\<in>set new. post_id r \<notin> post_id ` set (posts_table w)"
    "\<forall>i t. Classify i t \<in> set tr \<longrightarrow> i \<notin> post_id ` set (posts_table w)"
    "\<forall>i. Insert i \<in> set tr \<longrightarrow> i \<notin> post_id ` set (posts_table w)"
    by blast
  then show ?thesis using assms(2) by (rule frame_existing)
qed

lemma fetch_all_stored:
  assumes "fetch_and_analyze_subreddit e w sub = (res, w')"
    and "fetch_reddit_posts e (tick w) sub MAX_POSTS_PER_FETCH = Returned ps"
    and "post_id ` set ps \<subseteq> post_id ` set (posts_table w)"
  shows "posts_table w' = posts_table w \<and> new_effects w w' = [Fetch sub]"
proof -
  define w1 where "w1 = emit (Fetch sub) (step w)"
  from assms(1,2) have run: "analyze_posts e ps 0 w1 = (res, w')"
    by (simp add: fetch_and_analyze_subreddit_def w1_def)
  have "post_id ` set ps \<subseteq> post_id ` set (posts_table w1)"
    using assms(3) by (simp add: w1_def)
  from analyze_posts_all_exist [OF this run]
  have "posts_table w' = posts_table w" "trace w' = trace w @ [Fetch sub]"
    by (simp_all add: w1_def)
  then show ?thesis by (simp add: new_effects_def)
qed

lemma fetch_existing:
  assumes "fetch_and_analyze_subreddit e w sub = (res, w')" and "r \<in> set (posts_table w)"
  shows "stored w' (post_id r) = stored w (post_id r)
      \<and> map sentiment (stored w' (post_id r)) = map sentiment (stored w (post_id r))
      \<and> (\<forall>t. Classify (post_id r) t \<notin> set (new_effects w w'))
      \<and> Insert (post_id r) \<notin> set (new_effects w w')"
proof -
  from fetch_frame [OF assms(1)] obtain new tr where
    "posts_table w' = posts_table w @ new" "trace w' = trace w @ tr"
    "\<forall>r\<in>set new. post_id r \<notin> post_id ` set (posts_table w)"
    "\<forall>i t. Classify i t \<in> set tr \<longrightarrow> i \<notin> post_id ` set (posts_table w)"
    "\<forall>i. Insert i \<in> set tr \<longrightarrow> i \<notin> post_id ` set (posts_table w)"
    by blast
  then show ?thesis using assms(2) by (rule frame_existing)
qed

text \<open>
  Claim C1. An ingestion pass over one source, and a sweep over any list of sources,
  leaves every post that is already stored alone: the rows stored under its id (and so its
  sentiment) are the same afterwards, and neither a classifier call nor a write is issued
  for it. When every post a source returns is already stored, the pass over that source
  leaves the table unchanged and has no effect but the fetch: no classifier call and no
  write.
\<close>

theorem reingestion_write_once:
  "(fetch_and_analyze_subreddit e w sub = (res, w') \<longrightarrow>
      (\<forall>r\<in>set (posts_table w).
          stored w' (post_id r) = stored w (post_id r)
        \<and> map sentiment (stored w' (post_id r)) = map sentiment (stored w (post_id r))
        \<and> (\<forall>t. Classify (post_id r) t \<notin> set (new_effects w w'))
        \<and> Insert (post_id r) \<notin> set (new_effects w w'))
    \<and> (\<forall>ps. fetch_reddit_posts e (tick w) sub MAX_POSTS_PER_FETCH = Returned ps
              \<and> post_id ` set ps \<subseteq> post_id ` set (posts_table w)
            \<longrightarrow> posts_table w' = posts_table w \<and> new_effects w w' = [Fetch sub]))
   \<and> (sweep_sources e subs n w = (n', swept) \<longrightarrow>
      (\<forall>r\<in>set (posts_table w).
          stored swept (post_id r) = stored w (post_id r)
        \<and> map sentiment (stored swept (post_id r)) = map sentiment (stored w (post_id r))
        \<and> (\<forall>t. Classify (post_id r) t \<notin> set (new_effects w swept))
        \<and> Insert (post_id r) \<notin> set (new_effects w swept)))"
proof -
  have one: "\<forall>r\<in>set (posts_table w).
          stored w' (post_id r) = stored w (post_id r)
        \<and> map sentiment (stored w' (post_id r)) = map sentiment (stored w (post_id r))
        \<and> (\<forall>t. Classify (post_id r) t \<notin> set (new_effects w w'))
        \<and> Insert (post_id r) \<notin> set (new_effects w w')"
    if "fetch_and_analyze_subreddit e w sub = (res, w')"
    using fetch_existing [OF that] by blast
  have all_stored: "\<forall>ps. fetch_reddit_posts e (tick w) sub MAX_POSTS_PER_FETCH = Returned ps
              \<and> post_id ` set ps \<subseteq> post_id ` set (posts_table w)
            \<longrightarrow> posts_table w' = posts_table w \<and> new_effects w w' = [Fetch sub]"
    if "fetch_and_analyze_subreddit e w sub = (res, w')"
    using fetch_all_stored [OF that] by blast
  have sweep: "\<forall>r\<in>set (posts_table w).
          stored swept (post_id r) = stored w (post_id r)
        \<and> map sentiment (stored swept (post_id r)) = map sentiment (stored w (post_id r))
        \<and> (\<forall>t. Classify (post_id r) t \<notin> set (new_effects w swept))
        \<and> Insert (post_id r) \<notin> set (new_effects w swept)"
    if "sweep_sources e subs n w = (n', swept)"
    using sweep_existing [OF that] by blast
  from one all_stored sweep show ?thesis by blast
qed

theorem reingestion_write_once_witness:
  "stored (snd (fetch_and_analyze_subreddit
                  (listing_env [sample_post ''a'' ''OpenAI'' 0, sample_post ''b'' ''OpenAI'' 0])
                  (sample_world [sample_row ''a'' ''OpenAI'' 0 (Some Positive)]) ''OpenAI'')) ''a''
     = [sample_row ''a'' ''OpenAI'' 0 (Some Positive)]
   \<and> Insert ''a'' \<notin> set (new_effects
          (sample_world [sample_row ''a'' ''OpenAI'' 0 (Some Positive)])
          (snd (fetch_and_analyze_subreddit
                  (listing_env [sample_post ''a'' ''OpenAI'' 0, sample_post ''b'' ''OpenAI'' 0])
                  (sample_world [sample_row ''a'' ''OpenAI'' 0 (Some Positive)]) ''OpenAI'')))
   \<and> posts_table (snd (fetch_and_analyze_subreddit
                  (listing_env [sample_post ''a'' ''OpenAI'' 0])
                  (sample_world [sample_row ''a'' ''OpenAI'' 0 (Some Positive)]) ''OpenAI''))
     = [sample_row ''a'' ''OpenAI'' 0 (Some Positive)]
   \<and> new_effects (sample_world [sample_row ''a'' ''OpenAI'' 0 (Some Positive)])
        (snd (fetch_and_analyze_subreddit
                  (listing_env [sample_post ''a'' ''OpenAI'' 0])
                  (sample_world [sample_row ''a'' ''OpenAI'' 0 (Some Positive)]) ''OpenAI''))
     = [Fetch ''OpenAI'']
   \<and> stored (snd (sweep_sources
                  (listing_env [sample_post ''a'' ''OpenAI'' 0, sample_post ''b'' ''OpenAI'' 0])
                  AI_SUBREDDITS 0
                  (sample_world [sample_row ''a'' ''OpenAI'' 0 (Some Positive)]))) ''a''
     = [sample_row ''a'' ''OpenAI'' 0 (Some Positive)]"
proof -
  define w where "w = sample_world [sample_row ''a'' ''OpenAI'' 0 (Some Positive)]"
  define e2 where "e2 = listing_env [sample_post ''a'' ''OpenAI'' 0, sample_post ''b'' ''OpenAI'' 0]"
  define e1 where "e1 = listing_env [sample_post ''a'' ''OpenAI'' 0]"
  have tbl: "posts_table w = [sample_row ''a'' ''OpenAI'' 0 (Some Positive)]"
    by (simp add: w_def sample_world_def)
  have ida: "post_id (sample_row ''a'' ''OpenAI'' 0 (Some Positive)) = ''a''"
    by (simp add: sample_row_def sample_post_def)
  have run2: "fetch_and_analyze_subreddit e2 w ''OpenAI''
      = (fst (fetch_and_analyze_subreddit e2 w ''OpenAI''), snd (fetch_and_analyze_subreddit e2 w ''OpenAI''))"
    by simp
  have run1: "fetch_and_analyze_subreddit e1 w ''OpenAI''
      = (fst (fetch_and_analyze_subreddit e1 w ''OpenAI''), snd (fetch_and_analyze_subreddit e1 w ''OpenAI''))"
    by simp
  have run3: "sweep_sources e2 AI_SUBREDDITS 0 w
      = (fst (sweep_sources e2 AI_SUBREDDITS 0 w), snd (sweep_sources e2 AI_SUBREDDITS 0 w))"
    by simp
  have fetched: "fetch_reddit_posts e1 (tick w) ''OpenAI'' MAX_POSTS_PER_FETCH
      = Returned [sample_post ''a'' ''OpenAI'' 0]"
    by (simp add: fetch_reddit_posts_def e1_def listing_env_def quiet_env_def)
  have known: "post_id ` set [sample_post ''a'' ''OpenAI'' 0] \<subseteq> post_id ` set (posts_table w)"
    by (simp add: tbl ida) (simp add: sample_post_def)
  have "stored (snd (fetch_and_analyze_subreddit e2 w ''OpenAI'')) ''a'' = stored w ''a''
      \<and> Insert ''a'' \<notin> set (new_effects w (snd (fetch_and_analyze_subreddit e2 w ''OpenAI'')))"
    using reingestion_write_once [where e = e2 and w = w and sub = "''OpenAI''"
        and res = "fst (fetch_and_analyze_subreddit e2 w ''OpenAI'')"
        and w' = "snd (fetch_and_analyze_subreddit e2 w ''OpenAI'')"] run2 tbl ida
    by simp
  moreover have "stored w ''a'' = [sample_row ''a'' ''OpenAI'' 0 (Some Positive)]"
    by (simp add: stored_def tbl ida)
  moreover have "posts_table (snd (fetch_and_analyze_subreddit e1 w ''OpenAI'')) = posts_table w
      \<and> new_effects w (snd (fetch_and_analyze_subreddit e1 w ''OpenAI'')) = [Fetch ''OpenAI'']"
    using reingestion_write_once [where e = e1 and w = w and sub = "''OpenAI''"
        and res = "fst (fetch_and_analyze_subreddit e1 w ''OpenAI'')"
        and w' = "snd (fetch_and_analyze_subreddit e1 w ''OpenAI'')"] run1 fetched known
    by blast
  moreover have "stored (snd (sweep_sources e2 AI_SUBREDDITS 0 w)) ''a'' = stored w ''a''"
    using reingestion_write_once [where e = e2 and w = w and subs = AI_SUBREDDITS and n = 0
        and n' = "fst (sweep_sources e2 AI_SUBREDDITS 0 w)"
        and swept = "snd (sweep_sources e2 AI_SUBREDDITS 0 w)"] run3 tbl ida
    by simp
  ultimately show ?thesis
    using tbl by (simp add: w_def e1_def e2_def)
qed

section \<open>Properties of the classifier\<close>

lemma contains_sublist: "contains needle hay = sublist needle hay"
  by (induction hay) (simp_all add: sublist_Cons_right)

lemma class_facts:
  "is_sign x \<Longrightarrow> \<not> is_digit x" "is_sign x \<Longrightarrow> \<not> is_dot x" "is_dot x \<Longrightarrow> \<not> is_digit x"
  by (auto simp: is_sign_def is_digit_def is_dot_def)

lemma star_digits: "re_match [(is_digit, Star)] s = Some (takeWhile is_digit s)"
  by (induction s) simp_all

lemma plus_digits:
  "re_match [(is_digit, Plus)] s = (if takeWhile is_digit s = [] then None else Some (takeWhile is_digit s))"
  by (cases s) (simp_all add: star_digits)

lemma dot_plus_nodigit:
  "\<not> is_digit x \<Longrightarrow> re_match [(is_dot, Opt), (is_digit, Plus)] (x # xs) = unsigned_prefix (x # xs)"
  by (auto simp: unsigned_prefix_def plus_digits is_dot_def)

lemma dot_plus_nil: "re_match [(is_dot, Opt), (is_digit, Plus)] [] = unsigned_prefix []"
  by (simp add: unsigned_prefix_def)

lemma dot_plus_digit:
  "is_digit x \<Longrightarrow> re_match [(is_dot, Opt), (is_digit, Plus)] (x # xs) = Some (x # takeWhile is_digit xs)"
  using class_facts(3) [of x] by (auto simp: star_digits)

lemma star_dot_plus:
  "re_match [(is_digit, Star), (is_dot, Opt), (is_digit, Plus)] s = unsigned_prefix s"
proof (induction s)
  case Nil
  then show ?case using dot_plus_nil by simp
next
  case (Cons x xs)
  show ?case
  proof (cases "is_digit x")
    case False
    then show ?thesis using dot_plus_nodigit [of x xs] by simp
  next
    case True
    show ?thesis
    proof (cases "unsigned_prefix xs")
      case None
      then have "takeWhile is_digit xs = []"
        by (auto simp: unsigned_prefix_def Let_def split: if_splits)
      with None True Cons.IH show ?thesis
        using dot_plus_digit [OF True, of xs]
        by (auto simp: unsigned_prefix_def Let_def split: if_splits)
    next
      case (Some m)
      with True Cons.IH show ?thesis
        by (auto simp: unsigned_prefix_def Let_def split: if_splits)
    qed
  qed
qed

lemma number_prefix_unsigned:
  "number_prefix s =
     (case s of
        [] \<Rightarrow> None
      | x # xs \<Rightarrow> if is_sign x then map_option ((#) x) (unsigned_prefix xs) else unsigned_prefix (x # xs))"
  by (cases s) (auto simp: number_prefix_def unsigned_prefix_def Let_def is_sign_def)

lemma unsigned_prefix_sign: "is_sign x \<Longrightarrow> unsigned_prefix (x # xs) = None"
  using class_facts(1) [of x] class_facts(2) [of x]
  by (auto simp: unsigned_prefix_def is_dot_def)

lemma re_match_opt_sign:
  "re_match ((is_sign, Opt) # r) s =
     (case s of
        [] \<Rightarrow> re_match r []
      | x # xs \<Rightarrow>
          if is_sign x then (case re_match r xs of Some m \<Rightarrow> Some (x # m) | None \<Rightarrow> re_match r (x # xs))
          else re_match r (x # xs))"
  by (cases s) simp_all

lemma re_match_number: "re_match number_re s = number_prefix s"
proof (cases s)
  case Nil
  have "unsigned_prefix [] = None"
    by (simp add: unsigned_prefix_def)
  with Nil show ?thesis
    unfolding number_re_def re_match_opt_sign star_dot_plus number_prefix_unsigned by simp
next
  case (Cons x xs)
  show ?thesis
  proof (cases "is_sign x")
    case True
    with Cons show ?thesis
      unfolding number_re_def re_match_opt_sign star_dot_plus number_prefix_unsigned
      using unsigned_prefix_sign [OF True, of xs]
      by (simp split: option.splits)
  next
    case False
    with Cons show ?thesis
      unfolding number_re_def re_match_opt_sign star_dot_plus number_prefix_unsigned
      by simp
  qed
qed

lemma re_search_first_number: "re_search number_re s = spec_first_number s"
proof (induction s)
  case Nil
  then show ?case by (simp add: re_match_number number_prefix_def)
next
  case (Cons x xs)
  then show ?case by (simp add: re_match_number split: option.splits)
qed

lemma parse_completion_spec: "parse_completion e c = (spec_category c, spec_score e c)"
  by (simp add: parse_completion_def spec_category_def spec_score_def contains_sublist
      re_search_first_number split: option.splits)

lemma analyze_sentiment_cases:
  "analyze_sentiment e k txt =
     (case llama e k (sentiment_prompt txt) of
        NoResponse \<Rightarrow> (None, None)
      | Response status b \<Rightarrow>
          (case completion_text status b of
             None \<Rightarrow> (None, None)
           | Some c \<Rightarrow> (Some (spec_category c), Some (spec_score e c))))"
  by (simp add: analyze_sentiment_def completion_text_def parse_completion_spec
      split: http_reply.splits body.splits content_field.splits)

lemma unclassified_post_stored_unset:
  assumes "post_id p \<notin> post_id ` set (posts_table w)"
    and "\<not> sqlite_raises e (tick w)" and "\<not> sqlite_raises e (tick w + 2)"
    and "analyze_sentiment e (Suc (tick w)) (title p @ '' '' @ take 200 (selftext p)) = (None, None)"
  shows "posts_table (snd (analyze_posts e [p] 0 w))
       = posts_table w @ [post.extend p (row.fields None None (clock e (tick w + 2)))]"
proof -
  have "filter (\<lambda>r. post_id r \<noteq> post_id p) (posts_table w) = posts_table w"
    unfolding filter_id_conv using assms(1) by (metis imageI)
  with assms show ?thesis
    by (simp add: store_post_def Let_def)
qed

text \<open>
  Claim C2, as the code has it. When the request succeeds with status 200 and the body is a
  JSON object whose \<^verbatim>\<open>content\<close> is a string (or is absent, which the code reads as the
  empty text), the result is the category of the text (positive when its upper-case form
  contains POSITIVE, else negative when it contains NEGATIVE, else neutral) and a score:
  the first signed decimal number of the text when \<^verbatim>\<open>float\<close> accepts it and it lies in
  [-1, 1], and otherwise the default of the category (+0.7, -0.7, 0.0). The category is not
  derived from the number. In every other case (no response, a status other than 200, a
  body that is not JSON, not an object, or whose content is not a string) the result is
  the pair of \<^verbatim>\<open>None\<close>s, and a new post whose classification gave that pair is stored
  with sentiment and score unset.
\<close>

theorem analyze_sentiment_policy:
  "analyze_sentiment e k txt =
     (case llama e k (sentiment_prompt txt) of
        NoResponse \<Rightarrow> (None, None)
      | Response status b \<Rightarrow>
          (case completion_text status b of
             None \<Rightarrow> (None, None)
           | Some c \<Rightarrow> (Some (spec_category c), Some (spec_score e c))))
   \<and> (post_id p \<notin> post_id ` set (posts_table w)
        \<and> \<not> sqlite_raises e (tick w) \<and> \<not> sqlite_raises e (tick w + 2)
        \<and> analyze_sentiment e (Suc (tick w)) (title p @ '' '' @ take 200 (selftext p)) = (None, None)
      \<longrightarrow> posts_table (snd (analyze_posts e [p] 0 w))
            = posts_table w @ [post.extend p (row.fields None None (clock e (tick w + 2)))])"
  using analyze_sentiment_cases unclassified_post_stored_unset [of p w e]
  by blast

theorem analyze_sentiment_policy_witness:
  "analyze_sentiment
     (reply_env (Response 200 (Object (Text ''Sentiment: NEGATIVE Score: 0.9'')))) 0 ''good news''
     = (Some Negative, Some (9 / 10))
   \<and> spec_category ''Sentiment: NEGATIVE Score: 0.9'' = Negative
   \<and> spec_score (reply_env (Response 200 (Object (Text ''Sentiment: NEGATIVE Score: 0.9''))))
        ''Sentiment: NEGATIVE Score: 0.9'' = 9 / 10
   \<and> posts_table (snd (analyze_posts quiet_env [sample_post ''a'' ''OpenAI'' 0] 0 (sample_world [])))
     = [post.extend (sample_post ''a'' ''OpenAI'' 0) (row.fields None None (clock quiet_env 2))]"
proof -
  define e where "e = reply_env (Response 200 (Object (Text ''Sentiment: NEGATIVE Score: 0.9'')))"
  have run: "analyze_sentiment e 0 ''good news'' = (Some Negative, Some (9 / 10))"
    by (simp add: e_def analyze_sentiment_def reply_env_def quiet_env_def parse_completion_def
        upper_def number_re_def upper_char_def ascii_lowercase_def ascii_uppercase_def
        is_sign_def is_digit_def is_dot_def decimal_value_def digits_value_def)
  have reply: "llama e 0 (sentiment_prompt ''good news'')
      = Response 200 (Object (Text ''Sentiment: NEGATIVE Score: 0.9''))"
    by (simp add: e_def reply_env_def quiet_env_def)
  have "(Some Negative, Some (9 / 10))
      = (Some (spec_category ''Sentiment: NEGATIVE Score: 0.9''),
         Some (spec_score e ''Sentiment: NEGATIVE Score: 0.9''))"
    using analyze_sentiment_policy [of e 0 "''good news''"] run reply
    by (simp add: completion_text_def)
  then have spec: "spec_category ''Sentiment: NEGATIVE Score: 0.9'' = Negative"
    "spec_score e ''Sentiment: NEGATIVE Score: 0.9'' = 9 / 10"
    by simp_all
  have fresh: "post_id (sample_post ''a'' ''OpenAI'' 0) \<notin> post_id ` set (posts_table (sample_world []))"
    by (simp add: sample_world_def)
  have quiet: "\<not> sqlite_raises quiet_env (tick (sample_world []))"
    "\<not> sqlite_raises quiet_env (tick (sample_world []) + 2)"
    by (simp_all add: quiet_env_def)
  have unset: "analyze_sentiment quiet_env (Suc (tick (sample_world [])))
      (title (sample_post ''a'' ''OpenAI'' 0) @ '' '' @ take 200 (selftext (sample_post ''a'' ''OpenAI'' 0)))
      = (None, None)"
    by (simp add: analyze_sentiment_def quiet_env_def)
  have "posts_table (snd (analyze_posts quiet_env [sample_post ''a'' ''OpenAI'' 0] 0 (sample_world [])))
      = posts_table (sample_world [])
        @ [post.extend (sample_post ''a'' ''OpenAI'' 0)
             (row.fields None None (clock quiet_env (tick (sample_world []) + 2)))]"
    using analyze_sentiment_policy [of quiet_env _ _ "sample_post ''a'' ''OpenAI'' 0" "sample_world []"]
      fresh quiet unset by blast
  then have "posts_table (snd (analyze_posts quiet_env [sample_post ''a'' ''OpenAI'' 0] 0 (sample_world [])))
      = [post.extend (sample_post ''a'' ''OpenAI'' 0) (row.fields None None (clock quiet_env 2))]"
    by (simp add: sample_world_def numeral_2_eq_2 del: analyze_posts.simps)
  with run spec show ?thesis
    by (simp add: e_def)
qed

text \<open>
  Claim C2 as stated fails on a payload without the field \<^verbatim>\<open>content\<close>: the
  specification counts it as a failure (a malformed payload), and the code, through the
  default of \<^verbatim>\<open>result.get("content", "")\<close>, classifies the empty text as neutral with
  score 0.0.
\<close>

theorem classify_failure_counterexample:
  "spec_failure (llama (reply_env (Response 200 (Object Absent))) 0 (sentiment_prompt ''good news''))
   \<and> analyze_sentiment (reply_env (Response 200 (Object Absent))) 0 ''good news''
     = (Some Neutral, Some 0)"
  by (simp add: spec_failure_def analyze_sentiment_def reply_env_def quiet_env_def
      parse_completion_def upper_def number_re_def)

section \<open>Properties of the background loop\<close>

text \<open>
  A sweep adds no cleanup to the trace, and each iteration of the loop that the task
  survives adds exactly one, after the sweep: a task alive after \<open>n\<close> iterations has run
  the cleanup \<open>n\<close> times. When no SQLite statement raises, no failure of a source (a
  \<^verbatim>\<open>KeyError\<close> of a fetch) ends the task.
\<close>

lemma analyze_posts_cleanups:
  "analyze_posts e ps a w = (res, w') \<Longrightarrow> filter is_cleanup (trace w') = filter is_cleanup (trace w)"
proof (induction ps arbitrary: a w)
  case Nil
  then show ?case by simp
next
  case (Cons p rest)
  show ?case
  proof (cases "sqlite_raises e (tick w)")
    case True
    with Cons.prems show ?thesis by auto
  next
    case noraise: False
    show ?thesis
    proof (cases "post_id p \<in> post_id ` set (posts_table w)")
      case True
      with noraise Cons.prems have "analyze_posts e rest a (step w) = (res, w')" by simp
      from Cons.IH [OF this] show ?thesis by simp
    next
      case absent: False
      define ptext where "ptext = title p @ '' '' @ take 200 (selftext p)"
      define w2 where "w2 = emit (Classify (post_id p) ptext) (step (step w))"
      obtain sent sc where as: "analyze_sentiment e (tick (step w)) ptext = (sent, sc)"
        by (cases "analyze_sentiment e (tick (step w)) ptext")
      show ?thesis
      proof (cases "sqlite_raises e (tick w2)")
        case True
        with Cons.prems noraise absent as have "w' = step w2"
          by (simp add: Let_def ptext_def w2_def store_post_def)
        then show ?thesis by (simp add: w2_def)
      next
        case False
        define w3 where "w3 = emit (Insert (post_id p)) (step (w2\<lparr>posts_table :=
           filter (\<lambda>r. post_id r \<noteq> post_id p) (posts_table w2)
             @ [post.extend p (row.fields sent sc (clock e (tick w2)))]\<rparr>))"
        from False Cons.prems noraise absent as
        have "analyze_posts e rest (a + 1) (step w3) = (res, w')"
          by (simp add: Let_def ptext_def w2_def w3_def store_post_def)
        from Cons.IH [OF this] show ?thesis
          by (simp add: w3_def w2_def step_def emit_def)
      qed
    qed
  qed
qed

lemma fetch_cleanups:
  "fetch_and_analyze_subreddit e w sub = (res, w') \<Longrightarrow>
   filter is_cleanup (trace w') = filter is_cleanup (trace w)"
  using analyze_posts_cleanups [of e _ 0 "emit (Fetch sub) (step w)" res w']
  by (auto simp: fetch_and_analyze_subreddit_def Let_def split: outcome.splits)

lemma sweep_sources_cleanups:
  "sweep_sources e subs t w = (t', w') \<Longrightarrow>
   filter is_cleanup (trace w') = filter is_cleanup (trace w)"
proof (induction subs arbitrary: t w)
  case Nil
  then show ?case by simp
next
  case (Cons sub rest)
  obtain r w1 where f: "fetch_and_analyze_subreddit e w sub = (r, w1)"
    by (cases "fetch_and_analyze_subreddit e w sub")
  from fetch_cleanups [OF f] have c: "filter is_cleanup (trace w1) = filter is_cleanup (trace w)" .
  show ?case
  proof (cases r)
    case (Returned a)
    with f Cons.prems have "sweep_sources e rest (t + a) w1 = (t', w')" by simp
    from Cons.IH [OF this] c show ?thesis by simp
  next
    case (Raised ex)
    with f Cons.prems have "sweep_sources e rest t w1 = (t', w')" by simp
    from Cons.IH [OF this] c show ?thesis by simp
  qed
qed

lemma background_fetcher_alive:
  "background_fetcher e n w = (None, w') \<Longrightarrow>
   length (filter is_cleanup (trace w')) = length (filter is_cleanup (trace w)) + n"
proof (induction n arbitrary: w)
  case 0
  then show ?case by simp
next
  case (Suc n)
  obtain t w1 where sw: "sweep_sources e AI_SUBREDDITS 0 w = (t, w1)"
    by (cases "sweep_sources e AI_SUBREDDITS 0 w")
  obtain r w2 where cl: "cleanup_old_posts e w1 = (r, w2)"
    by (cases "cleanup_old_posts e w1")
  from sw cl Suc.prems obtain u where r: "r = Returned u"
    by (cases r) auto
  with sw cl Suc.prems have rest: "background_fetcher e n (step w2) = (None, w')"
    by simp
  from cl r have "filter is_cleanup (trace w2) = filter is_cleanup (trace w1) @ [Cleanup (length (posts_table w1) - length (posts_table w2))]"
    by (auto simp: cleanup_old_posts_def Let_def split: if_splits)
  with sweep_sources_cleanups [OF sw] Suc.IH [OF rest] show ?case
    by simp
qed

lemma background_fetcher_survives_sources:
  "\<forall>k. \<not> sqlite_raises e k \<Longrightarrow> fst (background_fetcher e n w) = None"
proof (induction n arbitrary: w)
  case 0
  then show ?case by simp
next
  case (Suc n)
  obtain t w1 where sw: "sweep_sources e AI_SUBREDDITS 0 w = (t, w1)"
    by (cases "sweep_sources e AI_SUBREDDITS 0 w")
  from Suc.prems have "fst (cleanup_old_posts e w1) = Returned ()"
    by (simp add: cleanup_old_posts_def Let_def)
  then obtain w2 where "cleanup_old_posts e w1 = (Returned (), w2)"
    by (cases "cleanup_old_posts e w1") auto
  with sw Suc.IH [OF Suc.prems, of "step w2"] show ?case by simp
qed

text \<open>
  One iteration of the loop, whatever happens in its sweep: the task goes on exactly when
  the statement of the cleanup does not raise, and it ends with the error of the cleanup
  when it does.
\<close>

lemma failures_in_sweep_do_not_end_iteration:
  "\<not> sqlite_raises e (tick (snd (sweep_sources e AI_SUBREDDITS 0 w))) \<Longrightarrow>
   fst (background_fetcher e (Suc 0) w) = None"
  by (simp add: cleanup_old_posts_def Let_def case_prod_beta)

lemma cleanup_error_ends_task:
  "sqlite_raises e (tick (snd (sweep_sources e AI_SUBREDDITS 0 w))) \<Longrightarrow>
   fst (background_fetcher e (Suc n) w) = Some SqliteError"
  by (simp add: cleanup_old_posts_def Let_def case_prod_beta)

text \<open>
  Claim C8, on the failing input. The cleanup runs once after each sweep and the failure
  of a source is caught, but an error of the delete is not logged and passed over: the
  call of \<^verbatim>\<open>cleanup_old_posts()\<close> stands outside every \<^verbatim>\<open>try\<close>. When the delete of
  the first sweep raises, the exception leaves \<^verbatim>\<open>background_fetcher\<close> and the task is
  over after its 15 fetches, however many iterations the loop is given: no second sweep
  takes place.
\<close>

theorem cleanup_error_ends_background_fetcher:
  "background_fetcher locked_env (Suc n) (sample_world [])
   = (Some SqliteError, \<lparr>posts_table = [], tick = 16, trace = map Fetch AI_SUBREDDITS\<rparr>)"
  by (simp add: locked_env_def quiet_env_def sample_world_def AI_SUBREDDITS_def
      fetch_and_analyze_subreddit_def fetch_reddit_posts_def cleanup_old_posts_def step_def emit_def)

lemma source_errors_do_not_end_background_fetcher:
  "fst (background_fetcher malformed_env n w) = None"
  by (rule background_fetcher_survives_sources) (simp add: malformed_env_def quiet_env_def)

section \<open>Properties of the timeline\<close>

lemma date_of_shift: "date_of (t + timedelta_days i) = date_of t + i"
  by (simp add: date_of_def timedelta_days_def day_us_def)

text \<open>
  The timeline has one bucket for each of the \<open>days\<close> values of the loop variable, and
  its labels are the dates from yesterday back to \<open>days\<close> days ago, in that order: the
  date of \<open>now\<close> is never among them.
\<close>

lemma timeline_labels:
  "tl_labels (get_timeline tbl now sub days) = map (\<lambda>i. date_of now - days + i) (range_down days)"
proof -
  have "date_of (now - timedelta_days days + timedelta_days i) = date_of now - days + i" for i
    using date_of_shift [of "now - timedelta_days days" i] date_of_shift [of "now - timedelta_days days" days]
    by simp
  then show ?thesis
    by (simp add: get_timeline_def Let_def)
qed

lemma timeline_lengths:
  "length (tl_labels (get_timeline tbl now sub days)) = nat days
   \<and> length (tl_positive (get_timeline tbl now sub days)) = nat days
   \<and> length (tl_neutral (get_timeline tbl now sub days)) = nat days
   \<and> length (tl_negative (get_timeline tbl now sub days)) = nat days"
  by (simp add: get_timeline_def Let_def range_down_def)

lemma timeline_without_today: "date_of now \<notin> set (tl_labels (get_timeline tbl now sub days))"
  by (auto simp: timeline_labels range_down_def)

lemma range_down_7: "range_down 7 = [6, 5, 4, 3, 2, 1, 0]"
  by (simp add: range_down_def upt_rec)

text \<open>
  Claim C4, on the failing input: a request for 7 days at noon of day 100, with one
  positive post created that morning. The timeline has 7 dense buckets, but they are the
  days 99 down to 93: newest first, ending at yesterday, and the post of today, which the
  query selects, is counted in no bucket. The claim asks for the days 94 to 100, oldest
  first, with the post in the last bucket.
\<close>

theorem timeline_newest_first_without_today:
  "get_timeline [sample_row ''a'' ''OpenAI'' (100 * day_us + 32400000000) (Some Positive)]
      (100 * day_us + 43200000000) None 7
   = \<lparr>tl_labels = [99, 98, 97, 96, 95, 94, 93],
      tl_positive = [0, 0, 0, 0, 0, 0, 0],
      tl_neutral = [0, 0, 0, 0, 0, 0, 0],
      tl_negative = [0, 0, 0, 0, 0, 0, 0]\<rparr>"
  by (simp add: get_timeline_def Let_def range_down_7 timeline_query_def date_data_of_def
      sample_row_def sample_post_def post.defs row.defs source_selected_def
      date_of_def timedelta_days_def day_us_def zero_counts_def)

section \<open>Properties of reading stored rows\<close>

text \<open>
  The converter accepts a timestamp written with a space and rejects every timestamp the
  program stores: \<^verbatim>\<open>store_post\<close> is the only writer of the table and writes through
  \<^verbatim>\<open>adapt_datetime\<close>. So reading any row raises \<^verbatim>\<open>ValueError\<close>, and each of the
  three search endpoints raises it as soon as the full-text query has a match; they return
  a result only when nothing matches.
\<close>

lemma convert_adapted: "convert_timestamp (adapt_datetime dt) = Raised ValueError"
  by (simp add: convert_timestamp_def adapt_datetime_def)

lemma convert_spaced:
  "convert_timestamp \<lparr>date_part = d, separator = CHR '' '', time_part = t\<rparr> = Returned (d * day_us + t)"
  by (simp add: convert_timestamp_def)

lemma read_row_raises: "read_row r = Raised ValueError"
  by (simp add: read_row_def convert_adapted)

lemma fetchall_raises: "rows \<noteq> [] \<Longrightarrow> fetchall rows = Raised ValueError"
  by (cases rows) (simp_all add: read_row_raises)





lemma stream_found:
  "fts5 e q = Some matches \<Longrightarrow> filter matches tbl \<noteq> [] \<Longrightarrow>
   search_analysis_stream e tbl q subreddits limit
     = ([Status (''Searching for posts about '' @ dquote @ q @ dquote @ ''...''),
         Status (''Found '' @ str_nat (length (filter matches tbl)) @ '' posts, fetching details...'')],
        Some ValueError)"
  by (simp add: search_analysis_stream_def fetchall_raises Let_def)



section \<open>Properties of the per-category counts\<close>














section \<open>Properties of the streaming analysis\<close>

text \<open>
  Claim C5, as the code has it. When the full-text query of a streaming request matches
  nothing, the generator yields the status event of the search and then exactly one
  complete event, and returns: no statistics event, no summary event. The complete event
  carries total 0, all counts and both percentages 0, the tone \<open>Unknown\<close> and three empty
  example lists; its summary is not empty but the sentence
  \<^verbatim>\<open>No posts found about '<query>'\<close>.
\<close>

theorem stream_without_matches:
  "fts5 e q = Some matches \<and> filter matches tbl = [] \<longrightarrow>
   search_analysis_stream e tbl q subreddits limit
     = ([Status (''Searching for posts about '' @ dquote @ q @ dquote @ ''...''),
         Complete
           \<lparr>sa_query = q,
            sa_summary = ''No posts found about '' @ apostrophe @ q @ apostrophe,
            sa_sentiment_summary =
              \<lparr>sum_positive = 0, sum_neutral = 0, sum_negative = 0, sum_total = 0,
               sum_positive_percent = 0, sum_negative_percent = 0,
               sum_overall_tone = ''Unknown''\<rparr>,
            sa_positive_examples = [],
            sa_negative_examples = [],
            sa_neutral_examples = []\<rparr>],
        None)"
  by (simp add: search_analysis_stream_def no_posts_payload_def)

theorem stream_without_matches_witness:
  "search_analysis_stream quiet_env [sample_row ''a'' ''OpenAI'' 0 None] ''zebra'' None 30
     = ([Status (''Searching for posts about '' @ dquote @ ''zebra'' @ dquote @ ''...''),
         Complete
           \<lparr>sa_query = ''zebra'',
            sa_summary = ''No posts found about '' @ apostrophe @ ''zebra'' @ apostrophe,
            sa_sentiment_summary =
              \<lparr>sum_positive = 0, sum_neutral = 0, sum_negative = 0, sum_total = 0,
               sum_positive_percent = 0, sum_negative_percent = 0,
               sum_overall_tone = ''Unknown''\<rparr>,
            sa_positive_examples = [],
            sa_negative_examples = [],
            sa_neutral_examples = []\<rparr>],
        None)"
proof -
  have m: "fts5 quiet_env ''zebra'' = Some (\<lambda>r. contains ''zebra'' (title r))"
    by (simp add: quiet_env_def)
  have none: "filter (\<lambda>r. contains ''zebra'' (title r)) [sample_row ''a'' ''OpenAI'' 0 None] = []"
    by (simp add: sample_row_def sample_post_def post.defs row.defs)
  from m none show ?thesis
    using stream_without_matches [of quiet_env "''zebra''" "\<lambda>r. contains ''zebra'' (title r)"
        "[sample_row ''a'' ''OpenAI'' 0 None]" None 30]
    by blast
qed

text \<open>
  Claim C5 as stated fails on the summary: for a query without matches the complete
  event does not carry the empty string.
\<close>

theorem stream_no_match_summary_counterexample:
  "(case fts5 quiet_env ''zebra'' of
      None \<Rightarrow> False
    | Some matches \<Rightarrow> filter matches [sample_row ''a'' ''OpenAI'' 0 None] = [])
   \<and> search_analysis_stream quiet_env [sample_row ''a'' ''OpenAI'' 0 None] ''zebra'' None 30
     = ([Status (''Searching for posts about '' @ dquote @ ''zebra'' @ dquote @ ''...''),
         Complete (no_posts_payload ''zebra'')], None)
   \<and> sa_summary (no_posts_payload ''zebra'')
     = ''No posts found about '' @ apostrophe @ ''zebra'' @ apostrophe
   \<and> sa_summary (no_posts_payload ''zebra'') \<noteq> []"
  by (simp add: search_analysis_stream_def quiet_env_def sample_row_def sample_post_def
      post.defs row.defs no_posts_payload_def)

text \<open>
  The final value of the summary in the streaming endpoint. It is the fallback when the
  request raises, when the status is not 200, and when reading a line raises; after a
  response with status 200 that ends without an exception it is the concatenation of the
  chunks received, whatever they are.
\<close>

lemma read_stream_broken: "Broken \<in> set ls \<Longrightarrow> snd (read_stream ls acc) = None"
proof (induction ls arbitrary: acc)
  case Nil
  then show ?case by simp
next
  case (Cons l rest)
  show ?case
  proof (cases l)
    case (Chunk c)
    with Cons show ?thesis by (simp add: case_prod_beta)
  qed (use Cons in simp_all)
qed

lemma read_stream_finished:
  "Broken \<notin> set ls \<Longrightarrow> snd (read_stream ls acc) = Some (acc @ concat (map chunk_text ls))"
proof (induction ls arbitrary: acc)
  case Nil
  then show ?case by simp
next
  case (Cons l rest)
  show ?case
  proof (cases l)
    case (Chunk c)
    with Cons show ?thesis by (simp add: case_prod_beta)
  qed (use Cons in simp_all)
qed

lemma summarize_stream_summary:
  "snd (summarize_stream e prompt fallback) =
     (case llama_stream e (chat_prompt prompt) of
        NoStream \<Rightarrow> fallback
      | Stream status ls \<Rightarrow>
          if status = 200 \<and> Broken \<notin> set ls then concat (map chunk_text ls) else fallback)"
proof (cases "llama_stream e (chat_prompt prompt)")
  case NoStream
  then show ?thesis by (simp add: summarize_stream_def)
next
  case (Stream status ls)
  obtain evs r where rs: "read_stream ls [] = (evs, r)"
    by (cases "read_stream ls []")
  show ?thesis
  proof (cases "Broken \<in> set ls")
    case True
    with read_stream_broken [OF True, of "[]"] rs Stream show ?thesis
      by (simp add: summarize_stream_def)
  next
    case False
    with read_stream_finished [OF False, of "[]"] rs Stream show ?thesis
      by (simp add: summarize_stream_def)
  qed
qed

lemma contentless_stream_summary:
  "snd (summarize_stream empty_stream_env prompt fallback) = []"
  by (simp add: summarize_stream_def empty_stream_env_def quiet_env_def)


section \<open>Properties of the non-streaming analysis\<close>






end
